theory Spec2Isabelle
  imports Main "HOL-Library.Word"
begin

section \<open>Data model\<close>

text \<open>
  The program is the Epic Games free-games server: \<open>fetchFreeGames\<close> (the version with the
  offer-mapping URL resolution and the cron job) and \<open>SendDiscordNotification\<close> of discord.go.
  Go strings are byte strings, modelled as \<open>string\<close>; Go's \<open>int\<close> is the 64-bit machine
  integer of the platform the Dockerfile builds for.
\<close>

type_synonym go_int = "64 word"

text \<open>The output struct \<open>Game\<close>. A field left out of a composite literal is the empty string.\<close>

record Game =
  Title :: string
  Description :: string
  ImageURL :: string
  URL :: string
  Status :: string
  StartDate :: string
  EndDate :: string
  DatePrecision :: string
  Publisher :: string

text \<open>
  The anonymous structs of \<open>GraphQLResponse\<close>, one record each. Only the fields that
  \<open>fetchFreeGames\<close> reads are kept; \<open>Seller.Name\<close>, \<open>CatalogNs.Mappings\<close> and
  \<open>Price.TotalPrice.FmtPrice.DiscountPrice\<close> are flattened into the element.
\<close>

record keyImage =
  img_Type :: string
  img_URL :: string

record pageMapping =
  PageSlug :: string
  PageType :: string

record discountSetting =
  DiscountType :: string
  DiscountPercentage :: go_int

record promo =
  promo_StartDate :: string
  promo_EndDate :: string
  DiscountSetting :: discountSetting

record offer =
  offer_PromotionalOffers :: "promo list"

record promotions =
  PromotionalOffers :: "offer list"
  UpcomingPromotionalOffers :: "offer list"

record element =
  el_Title :: string
  el_Description :: string
  Seller_Name :: string
  KeyImages :: "keyImage list"
  OfferMappings :: "pageMapping list"
  CatalogNs_Mappings :: "pageMapping list"
  DiscountPrice :: string
  Promotions :: promotions

section \<open>The Go standard library\<close>

text \<open>
  A \<open>*time.Location\<close>: \<open>time.UTC\<close>, the result of \<open>time.FixedZone name offset\<close>, or a zone
  that \<open>time.LoadLocation\<close> read from the time zone database.
\<close>

datatype location = UTC | FixedZone string go_int | Zone string

text \<open>
  The calls to package time, whose results depend on the time zone database and the
  clock, are parameters of the model: \<open>'t\<close> is \<open>time.Time\<close>.
  \<open>time_Parse layout s\<close> and \<open>time_LoadLocation name\<close> are \<open>None\<close> when Go returns an error;
  \<open>time_Now i\<close> is what \<open>time.Now()\<close> returns when iteration \<open>i\<close> of the loop over
  the elements reads the clock (each iteration reads it at most once).
\<close>

record 't golib =
  time_Parse :: "string \<Rightarrow> string \<Rightarrow> 't option"
  time_LoadLocation :: "string \<Rightarrow> location option"
  time_In :: "'t \<Rightarrow> location \<Rightarrow> 't"
  time_Format :: "'t \<Rightarrow> string \<Rightarrow> string"
  time_AddDate :: "'t \<Rightarrow> int \<Rightarrow> int \<Rightarrow> int \<Rightarrow> 't"
  time_Now :: "nat \<Rightarrow> 't"

definition RFC3339 :: string where
  "RFC3339 = ''2006-01-02T15:04:05Z07:00''"

definition dateLayout :: string where
  "dateLayout = ''2006-01-02 15:04:05 MST''"

subsection \<open>Package strings\<close>

definition HasPrefix :: "string \<Rightarrow> string \<Rightarrow> bool" where
  "HasPrefix s p = (take (length p) s = p)"

definition TrimPrefix :: "string \<Rightarrow> string \<Rightarrow> string" where
  "TrimPrefix s p = (if HasPrefix s p then drop (length p) s else s)"

fun Contains :: "string \<Rightarrow> string \<Rightarrow> bool" where
  "Contains [] sub = (sub = [])"
| "Contains (c # cs) sub = (HasPrefix (c # cs) sub \<or> Contains cs sub)"

text \<open>
  \<open>strings.ToLower\<close> on the bytes \<open>A\<close> to \<open>Z\<close>; every other byte is kept. (On text that is not
  ASCII Go maps whole runes; no rune other than \<open>F\<close>, \<open>R\<close>, \<open>E\<close> is mapped to a letter of
  \<open>free\<close>, so the test below is not affected.)
\<close>

definition toLowerChar :: "char \<Rightarrow> char" where
  "toLowerChar c =
     (let n = (of_char c :: nat) in if 65 \<le> n \<and> n \<le> 90 then char_of (n + 32) else c)"

definition ToLower :: "string \<Rightarrow> string" where
  "ToLower s = map toLowerChar s"

subsection \<open>Package fmt: Sscanf with the verb d\<close>

text \<open>
  \<open>fmt.Sscanf(str, "%d", &n)\<close> for an \<open>int\<close> \<open>n\<close>. The scanner skips white space (a newline
  there is an error), takes one sign if there is one, then needs a decimal digit and takes
  every digit that follows; the token goes to \<open>strconv.ParseInt\<close>, which fails outside 64 bits.
  What comes after the digits is not read. \<open>None\<close> is a returned error.

  \<open>spaceWidth s\<close> is the number of bytes of a white space rune at the head of \<open>s\<close>, in UTF-8,
  and 0 if there is none. White space is U+0009 to U+000D, U+0020, U+0085, U+00A0, U+1680,
  U+2000 to U+200A, U+2028, U+2029, U+202F, U+205F and U+3000.
\<close>

definition isDigit :: "char \<Rightarrow> bool" where
  "isDigit c = (48 \<le> (of_char c :: nat) \<and> (of_char c :: nat) \<le> 57)"

definition spaceWidth :: "string \<Rightarrow> nat" where
  "spaceWidth s =
     (case (map of_char s :: nat list) of
        [] \<Rightarrow> 0
      | b0 # bs \<Rightarrow>
          if 9 \<le> b0 \<and> b0 \<le> 13 \<or> b0 = 32 then 1
          else (case bs of
                  [] \<Rightarrow> 0
                | b1 # bs' \<Rightarrow>
                    if b0 = 0xC2 \<and> (b1 = 0x85 \<or> b1 = 0xA0) then 2
                    else (case bs' of
                            [] \<Rightarrow> 0
                          | b2 # bs'' \<Rightarrow>
                              if b0 = 0xE1 \<and> b1 = 0x9A \<and> b2 = 0x80 then 3
                              else if b0 = 0xE2 \<and> b1 = 0x80
                                      \<and> (0x80 \<le> b2 \<and> b2 \<le> 0x8A \<or> b2 = 0xA8 \<or> b2 = 0xA9
                                           \<or> b2 = 0xAF) then 3
                              else if b0 = 0xE2 \<and> b1 = 0x81 \<and> b2 = 0x9F then 3
                              else if b0 = 0xE3 \<and> b1 = 0x80 \<and> b2 = 0x80 then 3
                              else 0)))"

function SkipSpace :: "string \<Rightarrow> string option" where
  "SkipSpace s =
     (if s = [] then Some []
      else if (of_char (hd s) :: nat) = 10 then None
      else if spaceWidth s = 0 then Some s
      else SkipSpace (drop (spaceWidth s) s))"
  by pat_completeness auto
termination
  by (relation "measure length") auto

definition decimal :: "string \<Rightarrow> int" where
  "decimal digits = foldl (\<lambda>n c. 10 * n + (int (of_char c) - 48)) 0 digits"

definition Sscanf_d :: "string \<Rightarrow> go_int option" where
  "Sscanf_d str =
     (case SkipSpace str of
        None \<Rightarrow> None
      | Some input \<Rightarrow>
          (case input of
             [] \<Rightarrow> None
           | c # cs \<Rightarrow>
               (let rest = (if c = CHR ''+'' \<or> c = CHR ''-'' then cs else input);
                    digits = takeWhile isDigit rest;
                    i = (if c = CHR ''-'' then - decimal digits else decimal digits)
                in if digits = [] then None
                   else if - (2 ^ 63) \<le> i \<and> i < 2 ^ 63 then Some (word_of_int i)
                   else None)))"

section \<open>fetchFreeGames: one iteration of the loop over the elements\<close>

text \<open>The thumbnail: the first key image of type \<open>Thumbnail\<close> or \<open>DieselGameBox\<close>.\<close>

fun selectImage :: "keyImage list \<Rightarrow> string" where
  "selectImage [] = ''''"
| "selectImage (img # imgs) =
     (if img_Type img = ''Thumbnail'' \<or> img_Type img = ''DieselGameBox'' then img_URL img
      else selectImage imgs)"

text \<open>The loop \<open>for _, mapping := range ... { if mapping.PageSlug != "" { ...; break } }\<close>.\<close>

fun scanPageSlug :: "pageMapping list \<Rightarrow> string" where
  "scanPageSlug [] = ''''"
| "scanPageSlug (mapping # mappings) =
     (if PageSlug mapping \<noteq> '''' then PageSlug mapping else scanPageSlug mappings)"

definition resolvePageSlug :: "element \<Rightarrow> string" where
  "resolvePageSlug el =
     (let pageSlug = (if length (OfferMappings el) > 0 then scanPageSlug (OfferMappings el)
                      else '''')
      in if pageSlug = '''' \<and> length (CatalogNs_Mappings el) > 0
         then scanPageSlug (CatalogNs_Mappings el)
         else pageSlug)"

definition storeBase :: string where
  "storeBase = ''https://store.epicgames.com/en-US/p/''"

definition resolveURL :: "element \<Rightarrow> string" where
  "resolveURL el = storeBase @ resolvePageSlug el"

text \<open>
  The closure \<open>formatDate\<close>. Its time zone resolution is \<open>resolveLocation\<close>: the zone of
  \<open>time.LoadLocation\<close>, else an offset read from a \<open>UTC\<close>/\<open>GMT\<close> prefixed string, else the
  fixed zone \<open>UTC+8\<close>.
\<close>

definition fallbackZone :: location where
  "fallbackZone = FixedZone ''UTC+8'' (8 * 60 * 60)"

definition resolveLocation :: "'t golib \<Rightarrow> string \<Rightarrow> location" where
  "resolveLocation L timezone =
     (case time_LoadLocation L timezone of
        Some location \<Rightarrow> location
      | None \<Rightarrow>
          if HasPrefix timezone ''UTC'' \<or> HasPrefix timezone ''GMT'' then
            (let offsetStr = TrimPrefix (TrimPrefix timezone ''UTC'') ''GMT''
             in if offsetStr = '''' then UTC
                else (case Sscanf_d offsetStr of
                        Some offsetHours \<Rightarrow> FixedZone timezone (offsetHours * 60 * 60)
                      | None \<Rightarrow> fallbackZone))
          else fallbackZone)"

definition formatDate :: "'t golib \<Rightarrow> string \<Rightarrow> string \<Rightarrow> string" where
  "formatDate L timezone dateStr =
     (case time_Parse L RFC3339 dateStr of
        None \<Rightarrow> dateStr
      | Some t \<Rightarrow> time_Format L (time_In L t (resolveLocation L timezone)) dateLayout)"

text \<open>
  The two promotion scans. The state is the flag (\<open>isCurrentlyFree\<close> or \<open>hasUpcomingFree\<close>)
  and the game; every sub-offer at 100 percent writes the game again. The scans of the
  current and of the upcoming offers differ in the flag and in the status they write.
\<close>

fun scanPromos :: "(string \<Rightarrow> string) \<Rightarrow> string \<Rightarrow> promo list \<Rightarrow> bool \<times> Game \<Rightarrow> bool \<times> Game" where
  "scanPromos fd status [] st = st"
| "scanPromos fd status (p # ps) (flag, game) =
     (if DiscountPercentage (DiscountSetting p) = 100 then
        scanPromos fd status ps
          (True, game\<lparr>Status := status, StartDate := fd (promo_StartDate p),
                       EndDate := fd (promo_EndDate p), DatePrecision := ''exact''\<rparr>)
      else scanPromos fd status ps (flag, game))"

fun scanOffers :: "(string \<Rightarrow> string) \<Rightarrow> string \<Rightarrow> offer list \<Rightarrow> bool \<times> Game \<Rightarrow> bool \<times> Game" where
  "scanOffers fd status [] st = st"
| "scanOffers fd status (off # offs) st =
     (if length (offer_PromotionalOffers off) > 0
      then scanOffers fd status offs (scanPromos fd status (offer_PromotionalOffers off) st)
      else scanOffers fd status offs st)"

text \<open>The price test of the third stage.\<close>

definition freePrice :: "string \<Rightarrow> bool" where
  "freePrice price =
     (price = ''$0.00'' \<or> price = ''0'' \<or> price = '''' \<or> Contains (ToLower price) ''free'')"

text \<open>The zone of the estimated dates: \<open>time.LoadLocation\<close>, else the fixed zone \<open>UTC+8\<close>.\<close>

definition estimateLocation :: "'t golib \<Rightarrow> string \<Rightarrow> location" where
  "estimateLocation L timezone =
     (case time_LoadLocation L timezone of Some location \<Rightarrow> location | None \<Rightarrow> fallbackZone)"

definition estimateDates :: "'t golib \<Rightarrow> string \<Rightarrow> 't \<Rightarrow> Game \<Rightarrow> Game" where
  "estimateDates L timezone clock game =
     (let now = time_In L clock (estimateLocation L timezone);
          endDate = time_AddDate L now 0 0 7
      in game\<lparr>Status := ''free'', StartDate := time_Format L now dateLayout,
               EndDate := time_Format L endDate dateLayout, DatePrecision := ''estimated''\<rparr>)"

text \<open>
  The rescan of the current offers: the first sub-offer of each offer, until one has both
  dates (\<open>break\<close>).
\<close>

fun fallbackScan :: "(string \<Rightarrow> string) \<Rightarrow> offer list \<Rightarrow> Game \<Rightarrow> Game" where
  "fallbackScan fd [] game = game"
| "fallbackScan fd (off # offs) game =
     (case offer_PromotionalOffers off of
        [] \<Rightarrow> fallbackScan fd offs game
      | p # ps \<Rightarrow>
          if promo_StartDate p \<noteq> '''' \<and> promo_EndDate p \<noteq> '''' then
            game\<lparr>StartDate := fd (promo_StartDate p), EndDate := fd (promo_EndDate p),
                  DatePrecision := ''exact''\<rparr>
          else fallbackScan fd offs game)"

definition fallbackStage :: "(string \<Rightarrow> string) \<Rightarrow> offer list \<Rightarrow> Game \<Rightarrow> Game" where
  "fallbackStage fd offers game =
     (if Status game = ''free'' \<and>
         (StartDate game = '''' \<and> EndDate game = '''' \<or> DatePrecision game = ''estimated'')
      then (if length offers > 0 then fallbackScan fd offers game else game)
      else game)"

definition finalGuard :: "Game \<Rightarrow> Game" where
  "finalGuard game =
     (if StartDate game = '''' \<and> EndDate game = '''' then
        game\<lparr>StartDate := ''Unknown'', EndDate := ''Unknown'', DatePrecision := ''unknown''\<rparr>
      else game)"

text \<open>
  The body up to and including the fallback stage; \<open>None\<close> is \<open>continue\<close>. The log line
  for a game whose dates stay estimated does not change the game and is left out.
\<close>

definition newGame :: "element \<Rightarrow> Game" where
  "newGame el =
     \<lparr>Title = el_Title el, Description = el_Description el, ImageURL = selectImage (KeyImages el),
      URL = resolveURL el, Status = '''', StartDate = '''', EndDate = '''', DatePrecision = '''',
      Publisher = Seller_Name el\<rparr>"

definition classify :: "'t golib \<Rightarrow> bool \<Rightarrow> string \<Rightarrow> 't \<Rightarrow> element \<Rightarrow> Game option" where
  "classify L includeUpcoming timezone clock el =
     (let fd = formatDate L timezone;
          current = PromotionalOffers (Promotions el);
          upcoming = UpcomingPromotionalOffers (Promotions el);
          (isCurrentlyFree, game1) =
             (if length current > 0 then scanOffers fd ''free'' current (False, newGame el)
              else (False, newGame el));
          (hasUpcomingFree, game2) =
             (if \<not> isCurrentlyFree \<and> includeUpcoming \<and> length upcoming > 0
              then scanOffers fd ''coming soon'' upcoming (False, game1)
              else (False, game1));
          priced =
             (if \<not> isCurrentlyFree \<and> \<not> hasUpcomingFree then
                (if freePrice (DiscountPrice el) then Some (estimateDates L timezone clock game2)
                 else None)
              else Some game2)
      in case priced of
           None \<Rightarrow> None
         | Some game3 \<Rightarrow>
             if \<not> includeUpcoming \<and> Status game3 = ''coming soon'' then None
             else Some (fallbackStage fd current game3))"

definition convertElement :: "'t golib \<Rightarrow> bool \<Rightarrow> string \<Rightarrow> 't \<Rightarrow> element \<Rightarrow> Game option" where
  "convertElement L includeUpcoming timezone clock el =
     map_option finalGuard (classify L includeUpcoming timezone clock el)"

text \<open>The loop: \<open>games = append(games, game)\<close> for every element that is not skipped.\<close>

fun convertElements :: "'t golib \<Rightarrow> bool \<Rightarrow> string \<Rightarrow> nat \<Rightarrow> element list \<Rightarrow> Game list" where
  "convertElements L includeUpcoming timezone i [] = []"
| "convertElements L includeUpcoming timezone i (el # els) =
     (case convertElement L includeUpcoming timezone (time_Now L i) el of
        None \<Rightarrow> convertElements L includeUpcoming timezone (Suc i) els
      | Some game \<Rightarrow> game # convertElements L includeUpcoming timezone (Suc i) els)"

text \<open>
  The request to the store is outside the model: its outcome is an input. Every failure
  before the loop returns the error and no games.
\<close>

datatype upstream = RequestFailed | BadStatus int string | DecodeFailed | Decoded "element list"

datatype fetch_error = ErrSendingRequest | ErrBadStatus int string | ErrDecoding

definition fetchFreeGames :: "'t golib \<Rightarrow> upstream \<Rightarrow> bool \<Rightarrow> string \<Rightarrow> fetch_error + Game list" where
  "fetchFreeGames L response includeUpcoming timezone =
     (case response of
        RequestFailed \<Rightarrow> Inl ErrSendingRequest
      | BadStatus code body \<Rightarrow> Inl (ErrBadStatus code body)
      | DecodeFailed \<Rightarrow> Inl ErrDecoding
      | Decoded elements \<Rightarrow> Inr (convertElements L includeUpcoming timezone 0 elements))"

section \<open>SendDiscordNotification\<close>

record DiscordEmbedField =
  field_Name :: string
  field_Value :: string
  Inline :: bool

record DiscordEmbedThumbnail =
  thumb_URL :: string

record DiscordEmbedFooter =
  Text :: string
  IconURL :: string

record DiscordEmbed =
  embed_Title :: string
  embed_Description :: string
  embed_URL :: string
  Color :: go_int
  Timestamp :: string
  Fields :: "DiscordEmbedField list"
  Thumbnail :: "DiscordEmbedThumbnail option"
  Footer :: "DiscordEmbedFooter option"

record DiscordWebhookMessage =
  Content :: string
  Username :: string
  AvatarURL :: string
  Embeds :: "DiscordEmbed list"

text \<open>\<open>createGameEmbed\<close>; \<open>i\<close> is the index of the clock reading for the timestamp.\<close>

definition createGameEmbed :: "'t golib \<Rightarrow> nat \<Rightarrow> Game \<Rightarrow> DiscordEmbed" where
  "createGameEmbed L i game =
     (let color = (if Status game = ''free'' then 0x2ECC71
                   else if Status game = ''coming soon'' then 0xF1C40F
                   else 0x0078F2);
          fields0 = (if Publisher game \<noteq> '''' then
                       [\<lparr>field_Name = ''Publisher'', field_Value = Publisher game, Inline = True\<rparr>]
                     else []);
          statusText = (if Status game = ''coming soon'' then ''Coming Soon''
                        else ''Currently Free'');
          fields1 = fields0 @ [\<lparr>field_Name = ''Status'', field_Value = statusText, Inline = True\<rparr>];
          fields2 = (if StartDate game \<noteq> ''Unknown'' then
                       fields1 @ [\<lparr>field_Name = ''Available From'', field_Value = StartDate game,
                                   Inline = False\<rparr>]
                     else fields1);
          fields3 = (if EndDate game \<noteq> ''Unknown'' then
                       fields2 @ [\<lparr>field_Name = ''Available Until'', field_Value = EndDate game,
                                   Inline = False\<rparr>]
                     else fields2);
          precisionText = (if DatePrecision game = ''exact'' then ''Dates are exact''
                           else if DatePrecision game = ''estimated'' then ''Dates are estimated''
                           else if DatePrecision game = ''unknown'' then ''Dates are unknown''
                           else '''')
      in \<lparr>embed_Title = Title game, embed_Description = Description game, embed_URL = URL game,
          Color = color, Timestamp = time_Format L (time_Now L i) RFC3339, Fields = fields3,
          Thumbnail = (if ImageURL game \<noteq> '''' then Some \<lparr>thumb_URL = ImageURL game\<rparr> else None),
          Footer = Some \<lparr>Text = precisionText, IconURL = ''''\<rparr>\<rparr>)"

text \<open>The loop \<open>for i, game := range games { if i >= 10 { break }; append }\<close>.\<close>

fun addEmbeds :: "'t golib \<Rightarrow> nat \<Rightarrow> Game list \<Rightarrow> DiscordEmbed list \<Rightarrow> DiscordEmbed list" where
  "addEmbeds L i [] embeds = embeds"
| "addEmbeds L i (game # games) embeds =
     (if i \<ge> 10 then embeds
      else addEmbeds L (Suc i) games (embeds @ [createGameEmbed L i game]))"

text \<open>The message text: a game pad (U+1F3AE, four bytes) on both sides of the title.\<close>

definition gamePad :: string where
  "gamePad = [char_of (0xF0::nat), char_of (0x9F::nat), char_of (0x8E::nat), char_of (0xAE::nat)]"

definition webhookMessage :: "'t golib \<Rightarrow> Game list \<Rightarrow> DiscordWebhookMessage" where
  "webhookMessage L games =
     \<lparr>Content = gamePad @ '' Free Games from Epic Games Store '' @ gamePad,
      Username = '''', AvatarURL = '''', Embeds = addEmbeds L 0 games []\<rparr>"

text \<open>
  The webhook is outside the model. \<open>post url message\<close> is what happens to the request:
  \<open>http.NewRequest\<close> fails, \<open>client.Do\<close> fails, or the server answers with a status code.
  The result is the message handed to \<open>client.Do\<close>, if any, and the returned error.
  (\<open>json.Marshal\<close> has no error on this struct.)
\<close>

datatype post_outcome = NewRequestError | DoError | Responded int

datatype notify_error = ErrCreatingRequest | ErrSendingWebhook | ErrNon2xx int

definition SendDiscordNotification ::
  "'t golib \<Rightarrow> (string \<Rightarrow> DiscordWebhookMessage \<Rightarrow> post_outcome) \<Rightarrow> string \<Rightarrow> Game list
     \<Rightarrow> DiscordWebhookMessage option \<times> notify_error option" where
  "SendDiscordNotification L post webhookURL games =
     (if length games = 0 then (None, None)
      else
        (let message = webhookMessage L games
         in case post webhookURL message of
              NewRequestError \<Rightarrow> (None, Some ErrCreatingRequest)
            | DoError \<Rightarrow> (Some message, Some ErrSendingWebhook)
            | Responded code \<Rightarrow>
                (Some message,
                 if code < 200 \<or> code \<ge> 300 then Some (ErrNon2xx code) else None)))"

section \<open>A sample library\<close>

text \<open>
  The answers of the Go library on the strings and times of the examples below: two
  timestamps of the store, three zone names of the time zone database, the renderings
  of the times that occur, and a clock that stands at 2025-04-06 09:30:00 UTC. Every
  other string is an error for the parsers. A time is its Unix seconds and its location;
  \<open>AddDate\<close> is used with days only, which are 86400 seconds in the zones of the table.
\<close>

type_synonym sample_time = "int \<times> location"

definition sampleFormat :: "(sample_time \<times> string) list" where
  "sampleFormat =
     [((1743778800, UTC), ''2025-04-04 15:00:00 UTC''),
      ((1744383600, UTC), ''2025-04-11 15:00:00 UTC''),
      ((1743778800, FixedZone ''UTC+8'' 28800), ''2025-04-04 23:00:00 UTC+8''),
      ((1744383600, FixedZone ''UTC+8'' 28800), ''2025-04-11 23:00:00 UTC+8''),
      ((1743778800, FixedZone ''UTC+3'' 10800), ''2025-04-04 18:00:00 UTC+3''),
      ((1744383600, FixedZone ''UTC+3'' 10800), ''2025-04-11 18:00:00 UTC+3''),
      ((1743778800, Zone ''Asia/Manila''), ''2025-04-04 23:00:00 PST''),
      ((1744383600, Zone ''Asia/Manila''), ''2025-04-11 23:00:00 PST''),
      ((1743931800, UTC), ''2025-04-06 09:30:00 UTC''),
      ((1744536600, UTC), ''2025-04-13 09:30:00 UTC''),
      ((1743931800, FixedZone ''UTC+8'' 28800), ''2025-04-06 17:30:00 UTC+8''),
      ((1744536600, FixedZone ''UTC+8'' 28800), ''2025-04-13 17:30:00 UTC+8''),
      ((1743931800, Zone ''Asia/Manila''), ''2025-04-06 17:30:00 PST''),
      ((1744536600, Zone ''Asia/Manila''), ''2025-04-13 17:30:00 PST'')]"

definition sampleLib :: "sample_time golib" where
  "sampleLib =
     \<lparr>time_Parse = (\<lambda>layout s.
        if layout = RFC3339 then
          map_of [(''2025-04-04T15:00:00.000Z'', (1743778800, UTC)),
                  (''2025-04-11T15:00:00.000Z'', (1744383600, UTC))] s
        else None),
      time_LoadLocation =
        map_of [('''', UTC), (''UTC'', UTC), (''Asia/Manila'', Zone ''Asia/Manila'')],
      time_In = (\<lambda>t loc. (fst t, loc)),
      time_Format = (\<lambda>t layout.
        case map_of sampleFormat t of Some s \<Rightarrow> s | None \<Rightarrow> ''?''),
      time_AddDate = (\<lambda>t years months days. (fst t + 86400 * days, snd t)),
      time_Now = (\<lambda>i. (1743931800, UTC))\<rparr>"

text \<open>Elements and games of the examples.\<close>

definition mkPromo :: "string \<Rightarrow> string \<Rightarrow> go_int \<Rightarrow> promo" where
  "mkPromo s e pct =
     \<lparr>promo_StartDate = s, promo_EndDate = e,
      DiscountSetting = \<lparr>DiscountType = ''PERCENTAGE'', DiscountPercentage = pct\<rparr>\<rparr>"

definition mkElement :: "string \<Rightarrow> offer list \<Rightarrow> offer list \<Rightarrow> element" where
  "mkElement price current upcoming =
     \<lparr>el_Title = ''Cat Quest II'', el_Description = ''Open-world action-RPG'',
      Seller_Name = ''Kepler Interactive'',
      KeyImages = [\<lparr>img_Type = ''Thumbnail'', img_URL = ''https://cdn1.epicgames.com/cq2.jpg''\<rparr>],
      OfferMappings = [\<lparr>PageSlug = ''cat-quest-ii'', PageType = ''productHome''\<rparr>],
      CatalogNs_Mappings = [],
      DiscountPrice = price,
      Promotions = \<lparr>PromotionalOffers = current, UpcomingPromotionalOffers = upcoming\<rparr>\<rparr>"

section \<open>Notions used in the statements\<close>

text \<open>
  The sub-offers of a promotions list in iteration order (offer by offer), those of
  them at 100 percent, and the offers the rescan stops at: a first sub-offer with both dates.
\<close>

definition subOffers :: "offer list \<Rightarrow> promo list" where
  "subOffers offers = concat (map offer_PromotionalOffers offers)"

definition freePromos :: "offer list \<Rightarrow> promo list" where
  "freePromos offers =
     filter (\<lambda>p. DiscountPercentage (DiscountSetting p) = 100) (subOffers offers)"

definition firstSubOfferDated :: "offer \<Rightarrow> bool" where
  "firstSubOfferDated off =
     (case offer_PromotionalOffers off of
        [] \<Rightarrow> False
      | p # ps \<Rightarrow> promo_StartDate p \<noteq> '''' \<and> promo_EndDate p \<noteq> '''')"

text \<open>The game after a scan that found the sub-offer \<open>p\<close> last.\<close>

definition withPromo :: "(string \<Rightarrow> string) \<Rightarrow> string \<Rightarrow> promo \<Rightarrow> Game \<Rightarrow> Game" where
  "withPromo fd status p game =
     game\<lparr>Status := status, StartDate := fd (promo_StartDate p),
           EndDate := fd (promo_EndDate p), DatePrecision := ''exact''\<rparr>"

definition sampleGame :: Game where
  "sampleGame =
     \<lparr>Title = ''Cat Quest II'', Description = ''Open-world action-RPG'',
      ImageURL = ''https://cdn1.epicgames.com/cq2.jpg'',
      URL = ''https://store.epicgames.com/en-US/p/cat-quest-ii'',
      Status = ''free'', StartDate = ''2025-04-06 09:30:00 UTC'',
      EndDate = ''2025-04-13 09:30:00 UTC'', DatePrecision = ''estimated'',
      Publisher = ''Kepler Interactive''\<rparr>"

text \<open>The same library on a system without the time zone database: only \<open>UTC\<close> is known.\<close>

definition bareLib :: "sample_time golib" where
  "bareLib = sampleLib\<lparr>time_LoadLocation := map_of [('''', UTC), (''UTC'', UTC)]\<rparr>"

section \<open>The loops as list functions\<close>

lemma scanPageSlug_find:
  "scanPageSlug ms =
     (case find (\<lambda>m. PageSlug m \<noteq> '''') ms of None \<Rightarrow> '''' | Some m \<Rightarrow> PageSlug m)"
  by (induction ms) auto

lemma scanPromos_filter:
  "scanPromos fd status ps (flag, game) =
     (case filter (\<lambda>p. DiscountPercentage (DiscountSetting p) = 100) ps of
        [] \<Rightarrow> (flag, game)
      | m # ms \<Rightarrow> (True, withPromo fd status (last (m # ms)) game))"
proof (induction ps arbitrary: flag game)
  case Nil
  show ?case by simp
next
  case (Cons p ps)
  show ?case
  proof (cases "DiscountPercentage (DiscountSetting p) = 100")
    case True
    then show ?thesis
      by (simp add: Cons.IH withPromo_def split: list.split)
  next
    case False
    then show ?thesis by (simp add: Cons.IH)
  qed
qed

lemma scanPromos_append:
  "scanPromos fd status (ps @ qs) st = scanPromos fd status qs (scanPromos fd status ps st)"
proof (induction ps arbitrary: st)
  case Nil
  show ?case by simp
next
  case (Cons p ps)
  obtain flag game where st: "st = (flag, game)" by (cases st)
  show ?case unfolding st by (simp add: Cons.IH)
qed

lemma scanOffers_subOffers:
  "scanOffers fd status offers st = scanPromos fd status (subOffers offers) st"
proof (induction offers arbitrary: st)
  case Nil
  show ?case by (simp add: subOffers_def)
next
  case (Cons off offs)
  have step: "subOffers (off # offs) = offer_PromotionalOffers off @ subOffers offs"
    by (simp add: subOffers_def)
  show ?case
  proof (cases "offer_PromotionalOffers off")
    case Nil
    then show ?thesis by (simp add: Cons.IH step)
  next
    case (Cons p ps)
    then show ?thesis
      unfolding step scanPromos_append by (simp add: Cons.IH)
  qed
qed

lemma scanOffers_free:
  "scanOffers fd status offers (flag, game) =
     (if freePromos offers = [] then (flag, game)
      else (True, withPromo fd status (last (freePromos offers)) game))"
  unfolding scanOffers_subOffers scanPromos_filter freePromos_def
  by (simp split: list.split)

lemma fallbackScan_find:
  "fallbackScan fd offers game =
     (case find firstSubOfferDated offers of
        None \<Rightarrow> game
      | Some off \<Rightarrow>
          game\<lparr>StartDate := fd (promo_StartDate (hd (offer_PromotionalOffers off))),
                EndDate := fd (promo_EndDate (hd (offer_PromotionalOffers off))),
                DatePrecision := ''exact''\<rparr>)"
  by (induction offers) (auto simp: firstSubOfferDated_def split: list.splits)

lemma addEmbeds_zip:
  "addEmbeds L i games embeds =
     embeds @ map (\<lambda>(k, game). createGameEmbed L k game) (zip [i..<10] games)"
proof (induction games arbitrary: i embeds)
  case Nil
  show ?case by simp
next
  case (Cons game games)
  show ?case
  proof (cases "i \<ge> 10")
    case True
    then show ?thesis by simp
  next
    case False
    then have "[i..<10] = i # [Suc i..<10]" by (simp add: upt_conv_Cons)
    with False Cons.IH show ?thesis by simp
  qed
qed

lemma convertElements_append:
  "convertElements L inc tz i (xs @ ys) =
     convertElements L inc tz i xs @ convertElements L inc tz (i + length xs) ys"
  by (induction xs arbitrary: i) (auto split: option.split)

section \<open>The three ways through the classification\<close>

lemma classify_current:
  assumes "freePromos (PromotionalOffers (Promotions el)) \<noteq> []"
  shows "classify L inc tz clock el =
           Some (fallbackStage (formatDate L tz) (PromotionalOffers (Promotions el))
                   (withPromo (formatDate L tz) ''free''
                      (last (freePromos (PromotionalOffers (Promotions el)))) (newGame el)))"
proof -
  from assms have ne: "PromotionalOffers (Promotions el) \<noteq> []"
    by (auto simp: freePromos_def subOffers_def)
  show ?thesis
    using assms ne by (simp add: classify_def scanOffers_free withPromo_def Let_def)
qed

lemma classify_upcoming:
  assumes "freePromos (PromotionalOffers (Promotions el)) = []"
    and "freePromos (UpcomingPromotionalOffers (Promotions el)) \<noteq> []"
  shows "classify L True tz clock el =
           Some (withPromo (formatDate L tz) ''coming soon''
                   (last (freePromos (UpcomingPromotionalOffers (Promotions el)))) (newGame el))"
proof -
  from assms(2) have ne: "UpcomingPromotionalOffers (Promotions el) \<noteq> []"
    by (auto simp: freePromos_def subOffers_def)
  show ?thesis
    using assms ne
    by (auto simp add: classify_def scanOffers_free withPromo_def fallbackStage_def Let_def)
qed

lemma classify_price:
  assumes "freePromos (PromotionalOffers (Promotions el)) = []"
    and "\<not> inc \<or> freePromos (UpcomingPromotionalOffers (Promotions el)) = []"
  shows "classify L inc tz clock el =
           (if freePrice (DiscountPrice el)
            then Some (fallbackStage (formatDate L tz) (PromotionalOffers (Promotions el))
                         (estimateDates L tz clock (newGame el)))
            else None)"
  using assms
  by (auto simp add: classify_def scanOffers_free estimateDates_def Let_def)

lemma fallbackStage_find:
  "fallbackStage fd offers game =
     (if Status game = ''free'' \<and>
         (StartDate game = '''' \<and> EndDate game = '''' \<or> DatePrecision game = ''estimated'')
      then (case find firstSubOfferDated offers of
              None \<Rightarrow> game
            | Some off \<Rightarrow>
                game\<lparr>StartDate := fd (promo_StartDate (hd (offer_PromotionalOffers off))),
                      EndDate := fd (promo_EndDate (hd (offer_PromotionalOffers off))),
                      DatePrecision := ''exact''\<rparr>)
      else game)"
proof (cases offers)
  case Nil
  then show ?thesis by (simp add: fallbackStage_def)
next
  case (Cons off offs)
  then have "length offers > 0" by simp
  then show ?thesis unfolding fallbackStage_def fallbackScan_find by auto
qed

lemma fallbackStage_Status: "Status (fallbackStage fd offers game) = Status game"
  by (simp add: fallbackStage_find split: option.split)

lemma fallbackStage_URL: "URL (fallbackStage fd offers game) = URL game"
  by (simp add: fallbackStage_find split: option.split)

lemma fallbackStage_DatePrecision:
  "DatePrecision (fallbackStage fd offers game) = DatePrecision game \<or>
   DatePrecision (fallbackStage fd offers game) = ''exact''"
  by (simp add: fallbackStage_find split: option.split)

lemma fallbackStage_keeps:
  "\<not> (StartDate game = '''' \<and> EndDate game = '''') \<Longrightarrow> DatePrecision game \<noteq> ''estimated''
     \<Longrightarrow> fallbackStage fd offers game = game"
  by (auto simp add: fallbackStage_def)

lemma finalGuard_Status: "Status (finalGuard game) = Status game"
  by (simp add: finalGuard_def)

lemma finalGuard_URL: "URL (finalGuard game) = URL game"
  by (simp add: finalGuard_def)

lemma classify_DatePrecision:
  assumes "classify L inc tz clock el = Some game"
  shows "DatePrecision game = ''exact'' \<or> DatePrecision game = ''estimated''"
proof (cases "freePromos (PromotionalOffers (Promotions el)) = []")
  case False
  from assms classify_current [OF False, of L inc tz clock]
  have "game = fallbackStage (formatDate L tz) (PromotionalOffers (Promotions el))
                 (withPromo (formatDate L tz) ''free''
                    (last (freePromos (PromotionalOffers (Promotions el)))) (newGame el))"
    by simp
  then show ?thesis
    using fallbackStage_DatePrecision
            [of "formatDate L tz" "PromotionalOffers (Promotions el)"
                "withPromo (formatDate L tz) ''free''
                   (last (freePromos (PromotionalOffers (Promotions el)))) (newGame el)"]
    by (simp add: withPromo_def)
next
  case cur: True
  show ?thesis
  proof (cases "inc \<and> freePromos (UpcomingPromotionalOffers (Promotions el)) \<noteq> []")
    case True
    with assms classify_upcoming [OF cur, of L tz clock] show ?thesis
      by (auto simp: withPromo_def)
  next
    case False
    then have "\<not> inc \<or> freePromos (UpcomingPromotionalOffers (Promotions el)) = []" by simp
    from assms classify_price [OF cur this, of L tz clock]
    have "game = fallbackStage (formatDate L tz) (PromotionalOffers (Promotions el))
                   (estimateDates L tz clock (newGame el))"
      by (simp split: if_splits)
    moreover have "DatePrecision (estimateDates L tz clock (newGame el)) = ''estimated''"
      by (simp add: estimateDates_def Let_def)
    ultimately show ?thesis
      using fallbackStage_DatePrecision
              [of "formatDate L tz" "PromotionalOffers (Promotions el)"
                  "estimateDates L tz clock (newGame el)"]
      by auto
  qed
qed

section \<open>What Sscanf reads\<close>

declare SkipSpace.simps [simp del]

lemma spaceWidth_ascii:
  assumes "(of_char c :: nat) < 128"
    and "\<not> (9 \<le> (of_char c :: nat) \<and> (of_char c :: nat) \<le> 13)"
    and "(of_char c :: nat) \<noteq> 32"
  shows "spaceWidth (c # cs) = 0"
proof -
  from assms(1) have lead: "(of_char c :: nat) \<noteq> 0xC2" "(of_char c :: nat) \<noteq> 0xE1"
    "(of_char c :: nat) \<noteq> 0xE2" "(of_char c :: nat) \<noteq> 0xE3"
    by simp_all
  show ?thesis
    unfolding spaceWidth_def using assms(2,3) lead by (simp split: list.split)
qed

lemma spaceWidth_sign_or_digit:
  assumes "c = CHR ''+'' \<or> c = CHR ''-'' \<or> isDigit c"
  shows "spaceWidth (c # cs) = 0"
proof -
  from assms have "(of_char c :: nat) = 43 \<or> (of_char c :: nat) = 45
      \<or> 48 \<le> (of_char c :: nat) \<and> (of_char c :: nat) \<le> 57"
    by (auto simp: isDigit_def)
  then show ?thesis by (intro spaceWidth_ascii) auto
qed

lemma spaceWidth_newline: "(of_char c :: nat) = 10 \<Longrightarrow> spaceWidth (c # cs) = 1"
  by (simp add: spaceWidth_def)

lemma SkipSpace_none_to_skip: "spaceWidth (c # cs) = 0 \<Longrightarrow> SkipSpace (c # cs) = Some (c # cs)"
  using spaceWidth_newline [of c cs] by (subst SkipSpace.simps) auto

lemma takeWhile_all_digits: "\<forall>c \<in> set digits. isDigit c \<Longrightarrow> takeWhile isDigit digits = digits"
  by (simp add: takeWhile_eq_all_conv)

lemma Sscanf_d_integer:
  assumes "sign = '''' \<or> sign = ''+'' \<or> sign = ''-''"
    and "digits \<noteq> ''''" and "\<forall>c \<in> set digits. isDigit c"
    and "h = (if sign = ''-'' then - decimal digits else decimal digits)"
    and "- (2 ^ 63) \<le> h" and "h < 2 ^ 63"
  shows "Sscanf_d (sign @ digits) = Some (word_of_int h)"
proof -
  from assms(2) obtain d ds where digits: "digits = d # ds" by (cases digits) auto
  with assms(3) have d: "isDigit d" by simp
  then have nosign: "d \<noteq> CHR ''+''" "d \<noteq> CHR ''-''" by (auto simp: isDigit_def)
  from assms(1) show ?thesis
  proof (elim disjE)
    assume "sign = ''''"
    with assms(3-6) d nosign digits show ?thesis
      by (simp add: Sscanf_d_def SkipSpace_none_to_skip spaceWidth_sign_or_digit
            takeWhile_all_digits Let_def)
  next
    assume "sign = ''+''"
    with assms(3-6) digits show ?thesis
      by (simp add: Sscanf_d_def SkipSpace_none_to_skip spaceWidth_sign_or_digit
            takeWhile_all_digits Let_def)
  next
    assume "sign = ''-''"
    with assms(3-6) digits show ?thesis
      by (simp add: Sscanf_d_def SkipSpace_none_to_skip spaceWidth_sign_or_digit
            takeWhile_all_digits Let_def)
  qed
qed

lemma Sscanf_d_no_integer:
  assumes "\<not> isDigit c" and "spaceWidth (c # cs) = 0"
    and "c = CHR ''+'' \<or> c = CHR ''-'' \<longrightarrow> cs = [] \<or> \<not> isDigit (hd cs)"
  shows "Sscanf_d (c # cs) = None"
proof -
  have "takeWhile isDigit (if c = CHR ''+'' \<or> c = CHR ''-'' then cs else c # cs) = []"
    using assms(1,3) by (cases cs) auto
  then show ?thesis
    by (simp add: Sscanf_d_def SkipSpace_none_to_skip [OF assms(2)] Let_def)
qed

lemma trim_single_prefix:
  assumes "HasPrefix tz ''UTC'' \<or> HasPrefix tz ''GMT''" and "\<not> HasPrefix tz ''UTCGMT''"
  shows "TrimPrefix (TrimPrefix tz ''UTC'') ''GMT'' = drop 3 tz"
proof -
  have l3: "length ''UTC'' = 3" "length ''GMT'' = 3" and l6: "length ''UTCGMT'' = 6"
    by simp_all
  show ?thesis
  proof (cases "HasPrefix tz ''UTC''")
    case True
    then have utc: "take 3 tz = ''UTC''" unfolding HasPrefix_def l3 .
    have "take 6 tz = take 3 tz @ take 3 (drop 3 tz)"
      using take_add [of 3 3 tz] by simp
    with assms(2) utc have "take 3 (drop 3 tz) \<noteq> ''GMT''"
      unfolding HasPrefix_def l6 by auto
    then have "\<not> HasPrefix (drop 3 tz) ''GMT''" unfolding HasPrefix_def l3 .
    with True show ?thesis unfolding TrimPrefix_def l3 by simp
  next
    case False
    with assms(1) have "HasPrefix tz ''GMT''" by simp
    with False show ?thesis unfolding TrimPrefix_def l3 by simp
  qed
qed

lemma sint_go_int:
  "- (2 ^ 63) \<le> k \<Longrightarrow> k < 2 ^ 63 \<Longrightarrow> sint (word_of_int k :: go_int) = k"
  by (simp add: sint_sbintrunc' signed_take_bit_int_eq_self)

section \<open>The claims\<close>

text \<open>
  C8. The URL of an element is the store's base path followed by the first page slug that
  is not empty, looked for in the offer mappings and then, if there is none, in the
  catalog mappings, and by nothing if neither list has one; every emitted game carries
  that URL. With no offer mapping and the catalog mapping \<open>foo\<close> the URL ends in \<open>/foo\<close>;
  with both lists empty it is the base path with an empty last segment, and no error.
\<close>

theorem C8_url_from_first_page_slug:
  "resolveURL el =
     ''https://store.epicgames.com/en-US/p/'' @
       (case find (\<lambda>m. PageSlug m \<noteq> '''') (OfferMappings el) of
          Some m \<Rightarrow> PageSlug m
        | None \<Rightarrow>
            (case find (\<lambda>m. PageSlug m \<noteq> '''') (CatalogNs_Mappings el) of
               Some m \<Rightarrow> PageSlug m
             | None \<Rightarrow> ''''))
   \<and> (\<forall>game. convertElement L inc tz clock el = Some game \<longrightarrow> URL game = resolveURL el)
   \<and> (OfferMappings el = [] \<and> CatalogNs_Mappings el = [\<lparr>PageSlug = ''foo'', PageType = pt\<rparr>]
        \<longrightarrow> resolveURL el = ''https://store.epicgames.com/en-US/p/foo'')
   \<and> (OfferMappings el = [] \<and> CatalogNs_Mappings el = []
        \<longrightarrow> resolveURL el = ''https://store.epicgames.com/en-US/p/'')"
proof -
  have slug: "resolvePageSlug el =
       (case find (\<lambda>m. PageSlug m \<noteq> '''') (OfferMappings el) of
          Some m \<Rightarrow> PageSlug m
        | None \<Rightarrow>
            (case find (\<lambda>m. PageSlug m \<noteq> '''') (CatalogNs_Mappings el) of
               Some m \<Rightarrow> PageSlug m
             | None \<Rightarrow> ''''))"
  proof (cases "find (\<lambda>m. PageSlug m \<noteq> '''') (OfferMappings el)")
    case None
    then show ?thesis
      by (cases "CatalogNs_Mappings el")
         (simp_all add: resolvePageSlug_def scanPageSlug_find del: scanPageSlug.simps)
  next
    case (Some m)
    then have "PageSlug m \<noteq> ''''" by (auto simp: find_Some_iff)
    moreover from Some have "OfferMappings el \<noteq> []" by auto
    ultimately show ?thesis
      using Some by (simp add: resolvePageSlug_def scanPageSlug_find del: scanPageSlug.simps)
  qed
  have url: "URL game = resolveURL el" if "convertElement L inc tz clock el = Some game" for game
  proof -
    from that obtain g where g: "classify L inc tz clock el = Some g" and game: "game = finalGuard g"
      by (auto simp: convertElement_def)
    have "URL g = URL (newGame el)"
    proof (cases "freePromos (PromotionalOffers (Promotions el)) = []")
      case False
      from g classify_current [OF False, of L inc tz clock] show ?thesis
        by (auto simp: fallbackStage_URL withPromo_def)
    next
      case cur: True
      show ?thesis
      proof (cases "inc \<and> freePromos (UpcomingPromotionalOffers (Promotions el)) \<noteq> []")
        case True
        with g classify_upcoming [OF cur, of L tz clock] show ?thesis
          by (auto simp: withPromo_def)
      next
        case False
        then have "\<not> inc \<or> freePromos (UpcomingPromotionalOffers (Promotions el)) = []"
          by simp
        from g classify_price [OF cur this, of L tz clock] show ?thesis
          by (auto simp: fallbackStage_URL estimateDates_def Let_def split: if_splits)
      qed
    qed
    then show ?thesis by (simp add: game finalGuard_URL newGame_def)
  qed
  show ?thesis
    using url by (auto simp: resolveURL_def storeBase_def slug)
qed

theorem C8_url_from_first_page_slug_witness:
  "convertElement sampleLib True ''UTC'' (time_Now sampleLib 0) (mkElement ''$0.00'' [] []) =
     Some \<lparr>Title = ''Cat Quest II'', Description = ''Open-world action-RPG'',
           ImageURL = ''https://cdn1.epicgames.com/cq2.jpg'',
           URL = ''https://store.epicgames.com/en-US/p/cat-quest-ii'',
           Status = ''free'', StartDate = ''2025-04-06 09:30:00 UTC'',
           EndDate = ''2025-04-13 09:30:00 UTC'', DatePrecision = ''estimated'',
           Publisher = ''Kepler Interactive''\<rparr>
   \<and> resolveURL (mkElement ''$0.00'' [] []) = ''https://store.epicgames.com/en-US/p/cat-quest-ii''
   \<and> resolveURL ((mkElement ''$0.00'' [] [])
        \<lparr>OfferMappings := [],
          CatalogNs_Mappings := [\<lparr>PageSlug = ''foo'', PageType = ''productHome''\<rparr>]\<rparr>)
       = ''https://store.epicgames.com/en-US/p/foo''
   \<and> resolveURL ((mkElement ''$0.00'' [] [])\<lparr>OfferMappings := [], CatalogNs_Mappings := []\<rparr>)
       = ''https://store.epicgames.com/en-US/p/''"
proof -
  have game:
    "convertElement sampleLib True ''UTC'' (time_Now sampleLib 0) (mkElement ''$0.00'' [] []) =
       Some \<lparr>Title = ''Cat Quest II'', Description = ''Open-world action-RPG'',
             ImageURL = ''https://cdn1.epicgames.com/cq2.jpg'',
             URL = ''https://store.epicgames.com/en-US/p/cat-quest-ii'',
             Status = ''free'', StartDate = ''2025-04-06 09:30:00 UTC'',
             EndDate = ''2025-04-13 09:30:00 UTC'', DatePrecision = ''estimated'',
             Publisher = ''Kepler Interactive''\<rparr>"
    by code_simp
  from game C8_url_from_first_page_slug
         [of "mkElement ''$0.00'' [] []" sampleLib True "''UTC''" "time_Now sampleLib 0"]
  have first: "resolveURL (mkElement ''$0.00'' [] []) =
      ''https://store.epicgames.com/en-US/p/cat-quest-ii''"
    by simp
  have m: "OfferMappings ((mkElement ''$0.00'' [] [])
        \<lparr>OfferMappings := [],
          CatalogNs_Mappings := [\<lparr>PageSlug = ''foo'', PageType = ''productHome''\<rparr>]\<rparr>) = []
     \<and> CatalogNs_Mappings ((mkElement ''$0.00'' [] [])
        \<lparr>OfferMappings := [],
          CatalogNs_Mappings := [\<lparr>PageSlug = ''foo'', PageType = ''productHome''\<rparr>]\<rparr>)
       = [\<lparr>PageSlug = ''foo'', PageType = ''productHome''\<rparr>]"
    by simp
  have e: "OfferMappings ((mkElement ''$0.00'' [] [])\<lparr>OfferMappings := [], CatalogNs_Mappings := []\<rparr>) = []
     \<and> CatalogNs_Mappings ((mkElement ''$0.00'' [] [])\<lparr>OfferMappings := [], CatalogNs_Mappings := []\<rparr>) = []"
    by simp
  from m C8_url_from_first_page_slug
         [of "(mkElement ''$0.00'' [] [])
                \<lparr>OfferMappings := [],
                  CatalogNs_Mappings := [\<lparr>PageSlug = ''foo'', PageType = ''productHome''\<rparr>]\<rparr>"
             sampleLib True "''UTC''" "time_Now sampleLib 0" "''productHome''"]
  have second: "resolveURL ((mkElement ''$0.00'' [] [])
        \<lparr>OfferMappings := [],
          CatalogNs_Mappings := [\<lparr>PageSlug = ''foo'', PageType = ''productHome''\<rparr>]\<rparr>)
       = ''https://store.epicgames.com/en-US/p/foo''"
    by blast
  from e C8_url_from_first_page_slug
         [of "(mkElement ''$0.00'' [] [])\<lparr>OfferMappings := [], CatalogNs_Mappings := []\<rparr>"
             sampleLib True "''UTC''" "time_Now sampleLib 0"]
  have third: "resolveURL ((mkElement ''$0.00'' [] [])\<lparr>OfferMappings := [], CatalogNs_Mappings := []\<rparr>)
       = ''https://store.epicgames.com/en-US/p/''"
    by blast
  from game first second third show ?thesis by blast
qed

text \<open>
  C9. For an empty list of games \<open>SendDiscordNotification\<close> returns before a message is
  built: nothing is handed to the HTTP client and no error is returned. For any other
  list the message has \<open>min (length games) 10\<close> embeds, the \<open>k\<close>-th made from the \<open>k\<close>-th game,
  so the games after the tenth are dropped (12 games give 10 embeds); that message, and no
  other, is what the HTTP client is given.
\<close>

theorem C9_at_most_ten_embeds:
  "(games = [] \<longrightarrow> SendDiscordNotification L post url games = (None, None))
   \<and> (games \<noteq> [] \<longrightarrow>
        length (Embeds (webhookMessage L games)) = min (length games) 10
        \<and> (\<forall>k < min (length games) 10.
              Embeds (webhookMessage L games) ! k = createGameEmbed L k (games ! k))
        \<and> (\<forall>message. fst (SendDiscordNotification L post url games) = Some message
              \<longrightarrow> message = webhookMessage L games)
        \<and> (post url (webhookMessage L games) \<noteq> NewRequestError
              \<longrightarrow> fst (SendDiscordNotification L post url games) = Some (webhookMessage L games)))
   \<and> (length games = 12 \<longrightarrow> length (Embeds (webhookMessage L games)) = 10)"
proof -
  have embeds: "Embeds (webhookMessage L games) =
      map (\<lambda>(k, game). createGameEmbed L k game) (zip [0..<10] games)"
    by (simp add: webhookMessage_def addEmbeds_zip)
  have len: "length (Embeds (webhookMessage L games)) = min (length games) 10"
    by (simp add: embeds min.commute)
  have nth: "Embeds (webhookMessage L games) ! k = createGameEmbed L k (games ! k)"
    if "k < min (length games) 10" for k
    using that by (simp add: embeds)
  have sent: "message = webhookMessage L games"
    if "fst (SendDiscordNotification L post url games) = Some message" for message
    using that
    by (auto simp: SendDiscordNotification_def Let_def split: if_splits post_outcome.splits)
  have posted: "fst (SendDiscordNotification L post url games) = Some (webhookMessage L games)"
    if "games \<noteq> []" "post url (webhookMessage L games) \<noteq> NewRequestError"
    using that
    by (auto simp: SendDiscordNotification_def Let_def split: post_outcome.splits)
  have none: "SendDiscordNotification L post url games = (None, None)" if "games = []"
    using that by (simp add: SendDiscordNotification_def)
  from len have twelve: "length games = 12 \<longrightarrow> length (Embeds (webhookMessage L games)) = 10"
    by simp
  from none len nth sent posted twelve show ?thesis by blast
qed

theorem C9_at_most_ten_embeds_witness:
  "SendDiscordNotification sampleLib (\<lambda>url message. Responded 204)
      ''https://discord.com/api/webhooks/1/x'' [] = (None, None)
   \<and> length (Embeds (webhookMessage sampleLib (replicate 12 sampleGame))) = 10
   \<and> Embeds (webhookMessage sampleLib (replicate 12 sampleGame)) ! 9
        = createGameEmbed sampleLib 9 sampleGame
   \<and> fst (SendDiscordNotification sampleLib (\<lambda>url message. Responded 204)
        ''https://discord.com/api/webhooks/1/x'' (replicate 12 sampleGame))
       = Some (webhookMessage sampleLib (replicate 12 sampleGame))"
proof -
  have ne: "replicate 12 sampleGame \<noteq> []" by simp
  have len: "length (replicate 12 sampleGame) = 12" by simp
  have k: "(9::nat) < min (length (replicate 12 sampleGame)) 10" by simp
  have ok: "(\<lambda>url message. Responded 204) ''https://discord.com/api/webhooks/1/x''
              (webhookMessage sampleLib (replicate 12 sampleGame)) \<noteq> NewRequestError"
    by simp
  have nth: "replicate 12 sampleGame ! 9 = sampleGame" by simp
  note inst12 = C9_at_most_ten_embeds
               [of "replicate 12 sampleGame" sampleLib "\<lambda>url message. Responded 204"
                   "''https://discord.com/api/webhooks/1/x''"]
  note inst0 = C9_at_most_ten_embeds
               [of "[]" sampleLib "\<lambda>url message. Responded 204"
                   "''https://discord.com/api/webhooks/1/x''"]
  from inst0 have a: "SendDiscordNotification sampleLib (\<lambda>url message. Responded 204)
      ''https://discord.com/api/webhooks/1/x'' [] = (None, None)"
    by blast
  from inst12 len have b: "length (Embeds (webhookMessage sampleLib (replicate 12 sampleGame))) = 10"
    by blast
  from inst12 ne k have "Embeds (webhookMessage sampleLib (replicate 12 sampleGame)) ! 9
        = createGameEmbed sampleLib 9 (replicate 12 sampleGame ! 9)"
    by blast
  with nth have c: "Embeds (webhookMessage sampleLib (replicate 12 sampleGame)) ! 9
        = createGameEmbed sampleLib 9 sampleGame"
    by simp
  from inst12 ne ok have d: "fst (SendDiscordNotification sampleLib (\<lambda>url message. Responded 204)
        ''https://discord.com/api/webhooks/1/x'' (replicate 12 sampleGame))
       = Some (webhookMessage sampleLib (replicate 12 sampleGame))"
    by blast
  from a b c d show ?thesis by blast
qed

text \<open>
  C5. An element with no sub-offer at 100 percent in either promotions list and a discount
  price that is none of \<open>$0.00\<close>, \<open>0\<close>, the empty string, and does not contain \<open>free\<close> in
  any case, is skipped: the loop body ends in \<open>continue\<close>, and the list of games is the one
  of the elements around it.
\<close>

theorem C5_paid_element_skipped:
  assumes "freePromos (PromotionalOffers (Promotions el)) = []"
    and "freePromos (UpcomingPromotionalOffers (Promotions el)) = []"
    and "DiscountPrice el \<noteq> ''$0.00''" and "DiscountPrice el \<noteq> ''0''"
    and "DiscountPrice el \<noteq> ''''"
    and "\<not> Contains (ToLower (DiscountPrice el)) ''free''"
  shows "convertElement L inc tz clock el = None
         \<and> fetchFreeGames L (Decoded (before @ el # after)) inc tz =
             Inr (convertElements L inc tz 0 before
                    @ convertElements L inc tz (Suc (length before)) after)"
proof -
  from assms have paid: "\<not> freePrice (DiscountPrice el)" by (simp add: freePrice_def)
  have none: "convertElement L inc tz c el = None" for c
    using classify_price [of el inc L tz c] assms(1,2) paid
    by (simp add: convertElement_def)
  then show ?thesis by (simp add: fetchFreeGames_def convertElements_append)
qed

theorem C5_paid_element_skipped_witness:
  "convertElement sampleLib True ''UTC'' (time_Now sampleLib 0)
     (mkElement ''$19.99''
        [\<lparr>offer_PromotionalOffers =
            [mkPromo ''2025-04-04T15:00:00.000Z'' ''2025-04-11T15:00:00.000Z'' 50]\<rparr>] []) = None
   \<and> fetchFreeGames sampleLib
       (Decoded ([mkElement ''$0.00'' [] []] @
          mkElement ''$19.99''
            [\<lparr>offer_PromotionalOffers =
                [mkPromo ''2025-04-04T15:00:00.000Z'' ''2025-04-11T15:00:00.000Z'' 50]\<rparr>] []
          # [mkElement ''$0.00'' [] []])) True ''UTC''
      = Inr [sampleGame, sampleGame]"
proof -
  have h1: "freePromos (PromotionalOffers (Promotions (mkElement ''$19.99''
        [\<lparr>offer_PromotionalOffers =
            [mkPromo ''2025-04-04T15:00:00.000Z'' ''2025-04-11T15:00:00.000Z'' 50]\<rparr>] []))) = []"
    by code_simp
  have h2: "freePromos (UpcomingPromotionalOffers (Promotions (mkElement ''$19.99''
        [\<lparr>offer_PromotionalOffers =
            [mkPromo ''2025-04-04T15:00:00.000Z'' ''2025-04-11T15:00:00.000Z'' 50]\<rparr>] []))) = []"
    by code_simp
  have price: "DiscountPrice (mkElement ''$19.99''
        [\<lparr>offer_PromotionalOffers =
            [mkPromo ''2025-04-04T15:00:00.000Z'' ''2025-04-11T15:00:00.000Z'' 50]\<rparr>] []) = ''$19.99''"
    by (simp add: mkElement_def)
  have h3: "\<not> Contains (ToLower ''$19.99'') ''free''"
    by code_simp
  have rest: "convertElements sampleLib True ''UTC'' 0 [mkElement ''$0.00'' [] []] = [sampleGame]"
      "convertElements sampleLib True ''UTC'' (Suc (length [mkElement ''$0.00'' [] []]))
         [mkElement ''$0.00'' [] []] = [sampleGame]"
    by code_simp+
  from C5_paid_element_skipped
         [of "mkElement ''$19.99''
                [\<lparr>offer_PromotionalOffers =
                    [mkPromo ''2025-04-04T15:00:00.000Z'' ''2025-04-11T15:00:00.000Z'' 50]\<rparr>] []"
             sampleLib True "''UTC''" "time_Now sampleLib 0"
             "[mkElement ''$0.00'' [] []]" "[mkElement ''$0.00'' [] []]", OF h1 h2]
       price h3 rest
  show ?thesis by simp
qed

text \<open>
  C4. A game that reaches the fallback stage with status \<open>free\<close> and either both dates
  empty or precision \<open>estimated\<close> gets the dates of the first offer of the current
  promotions, in list order, whose first sub-offer has a start and an end date, whatever
  its discount percentage: both are rendered by \<open>formatDate\<close> and the precision becomes
  \<open>exact\<close>. No offer after that one is looked at (the offers before it have no sub-offer or
  a first sub-offer without both dates); without such an offer the game is unchanged.
\<close>

theorem C4_fallback_first_dated_offer:
  assumes "Status game = ''free''"
    and "StartDate game = '''' \<and> EndDate game = '''' \<or> DatePrecision game = ''estimated''"
  shows "(find firstSubOfferDated offers = None \<longrightarrow>
            fallbackStage (formatDate L tz) offers game = game)
         \<and> (\<forall>skipped off rest p ps.
               offers = skipped @ off # rest \<and> (\<forall>x \<in> set skipped. \<not> firstSubOfferDated x)
               \<and> offer_PromotionalOffers off = p # ps
               \<and> promo_StartDate p \<noteq> '''' \<and> promo_EndDate p \<noteq> ''''
               \<longrightarrow> fallbackStage (formatDate L tz) offers game =
                     game\<lparr>StartDate := formatDate L tz (promo_StartDate p),
                           EndDate := formatDate L tz (promo_EndDate p),
                           DatePrecision := ''exact''\<rparr>)"
proof -
  have found: "fallbackStage (formatDate L tz) offers game =
                 game\<lparr>StartDate := formatDate L tz (promo_StartDate p),
                       EndDate := formatDate L tz (promo_EndDate p),
                       DatePrecision := ''exact''\<rparr>"
    if "offers = skipped @ off # rest" "\<forall>x \<in> set skipped. \<not> firstSubOfferDated x"
       "offer_PromotionalOffers off = p # ps" "promo_StartDate p \<noteq> ''''" "promo_EndDate p \<noteq> ''''"
    for skipped off rest p ps
  proof -
    from that(3-5) have "firstSubOfferDated off" by (simp add: firstSubOfferDated_def)
    with that(1,2) have "find firstSubOfferDated offers = Some off"
      by (induction skipped arbitrary: offers) auto
    with assms that(3) show ?thesis by (simp add: fallbackStage_find)
  qed
  have missing: "fallbackStage (formatDate L tz) offers game = game"
    if "find firstSubOfferDated offers = None"
    using that assms by (simp add: fallbackStage_find)
  from found missing show ?thesis by blast
qed

theorem C4_fallback_first_dated_offer_witness:
  "fallbackStage (formatDate sampleLib ''UTC'')
      [\<lparr>offer_PromotionalOffers = []\<rparr>,
       \<lparr>offer_PromotionalOffers = [mkPromo '''' ''2025-04-11T15:00:00.000Z'' 100]\<rparr>,
       \<lparr>offer_PromotionalOffers = [mkPromo ''2025-04-04T15:00:00.000Z'' ''2025-04-11T15:00:00.000Z'' 50,
                                   mkPromo ''later'' ''never'' 100]\<rparr>,
       \<lparr>offer_PromotionalOffers = [mkPromo ''later'' ''never'' 100]\<rparr>]
      sampleGame
    = sampleGame\<lparr>StartDate := ''2025-04-04 15:00:00 UTC'', EndDate := ''2025-04-11 15:00:00 UTC'',
                 DatePrecision := ''exact''\<rparr>
   \<and> fallbackStage (formatDate sampleLib ''UTC'') [\<lparr>offer_PromotionalOffers = []\<rparr>] sampleGame
       = sampleGame"
proof -
  have st: "Status sampleGame = ''free''"
    by (simp add: sampleGame_def)
  have pr: "StartDate sampleGame = '''' \<and> EndDate sampleGame = ''''
            \<or> DatePrecision sampleGame = ''estimated''"
    by (simp add: sampleGame_def)
  have split: "[\<lparr>offer_PromotionalOffers = []\<rparr>,
       \<lparr>offer_PromotionalOffers = [mkPromo '''' ''2025-04-11T15:00:00.000Z'' 100]\<rparr>,
       \<lparr>offer_PromotionalOffers = [mkPromo ''2025-04-04T15:00:00.000Z'' ''2025-04-11T15:00:00.000Z'' 50,
                                   mkPromo ''later'' ''never'' 100]\<rparr>,
       \<lparr>offer_PromotionalOffers = [mkPromo ''later'' ''never'' 100]\<rparr>]
     = [\<lparr>offer_PromotionalOffers = []\<rparr>,
        \<lparr>offer_PromotionalOffers = [mkPromo '''' ''2025-04-11T15:00:00.000Z'' 100]\<rparr>]
       @ \<lparr>offer_PromotionalOffers = [mkPromo ''2025-04-04T15:00:00.000Z'' ''2025-04-11T15:00:00.000Z'' 50,
                                   mkPromo ''later'' ''never'' 100]\<rparr>
       # [\<lparr>offer_PromotionalOffers = [mkPromo ''later'' ''never'' 100]\<rparr>]"
    by simp
  have skipped: "\<forall>x \<in> set [\<lparr>offer_PromotionalOffers = []\<rparr>,
        \<lparr>offer_PromotionalOffers = [mkPromo '''' ''2025-04-11T15:00:00.000Z'' 100]\<rparr>].
      \<not> firstSubOfferDated x"
    by (simp add: firstSubOfferDated_def mkPromo_def)
  have first: "offer_PromotionalOffers
       \<lparr>offer_PromotionalOffers = [mkPromo ''2025-04-04T15:00:00.000Z'' ''2025-04-11T15:00:00.000Z'' 50,
                                   mkPromo ''later'' ''never'' 100]\<rparr>
      = mkPromo ''2025-04-04T15:00:00.000Z'' ''2025-04-11T15:00:00.000Z'' 50
        # [mkPromo ''later'' ''never'' 100]"
    by simp
  have dates: "promo_StartDate (mkPromo ''2025-04-04T15:00:00.000Z'' ''2025-04-11T15:00:00.000Z'' 50) \<noteq> ''''
      \<and> promo_EndDate (mkPromo ''2025-04-04T15:00:00.000Z'' ''2025-04-11T15:00:00.000Z'' 50) \<noteq> ''''"
    by (simp add: mkPromo_def)
  have none: "find firstSubOfferDated [\<lparr>offer_PromotionalOffers = []\<rparr>] = None"
    by (simp add: firstSubOfferDated_def)
  have fd: "formatDate sampleLib ''UTC''
              (promo_StartDate (mkPromo ''2025-04-04T15:00:00.000Z'' ''2025-04-11T15:00:00.000Z'' 50))
            = ''2025-04-04 15:00:00 UTC''"
           "formatDate sampleLib ''UTC''
              (promo_EndDate (mkPromo ''2025-04-04T15:00:00.000Z'' ''2025-04-11T15:00:00.000Z'' 50))
            = ''2025-04-11 15:00:00 UTC''"
    by code_simp+
  from C4_fallback_first_dated_offer [OF st pr, of _ sampleLib "''UTC''"]
       split skipped first dates
  have "fallbackStage (formatDate sampleLib ''UTC'')
      [\<lparr>offer_PromotionalOffers = []\<rparr>,
       \<lparr>offer_PromotionalOffers = [mkPromo '''' ''2025-04-11T15:00:00.000Z'' 100]\<rparr>,
       \<lparr>offer_PromotionalOffers = [mkPromo ''2025-04-04T15:00:00.000Z'' ''2025-04-11T15:00:00.000Z'' 50,
                                   mkPromo ''later'' ''never'' 100]\<rparr>,
       \<lparr>offer_PromotionalOffers = [mkPromo ''later'' ''never'' 100]\<rparr>]
      sampleGame
    = sampleGame
        \<lparr>StartDate := formatDate sampleLib ''UTC''
              (promo_StartDate (mkPromo ''2025-04-04T15:00:00.000Z'' ''2025-04-11T15:00:00.000Z'' 50)),
         EndDate := formatDate sampleLib ''UTC''
              (promo_EndDate (mkPromo ''2025-04-04T15:00:00.000Z'' ''2025-04-11T15:00:00.000Z'' 50)),
         DatePrecision := ''exact''\<rparr>"
    by blast
  then have a: "fallbackStage (formatDate sampleLib ''UTC'')
      [\<lparr>offer_PromotionalOffers = []\<rparr>,
       \<lparr>offer_PromotionalOffers = [mkPromo '''' ''2025-04-11T15:00:00.000Z'' 100]\<rparr>,
       \<lparr>offer_PromotionalOffers = [mkPromo ''2025-04-04T15:00:00.000Z'' ''2025-04-11T15:00:00.000Z'' 50,
                                   mkPromo ''later'' ''never'' 100]\<rparr>,
       \<lparr>offer_PromotionalOffers = [mkPromo ''later'' ''never'' 100]\<rparr>]
      sampleGame
    = sampleGame\<lparr>StartDate := ''2025-04-04 15:00:00 UTC'', EndDate := ''2025-04-11 15:00:00 UTC'',
                 DatePrecision := ''exact''\<rparr>"
    unfolding fd by simp
  from C4_fallback_first_dated_offer [OF st pr, of "[\<lparr>offer_PromotionalOffers = []\<rparr>]" sampleLib "''UTC''"]
       none
  have b: "fallbackStage (formatDate sampleLib ''UTC'') [\<lparr>offer_PromotionalOffers = []\<rparr>] sampleGame
       = sampleGame"
    by blast
  from a b show ?thesis by blast
qed

text \<open>
  C6. An emitted game has precision \<open>unknown\<close> exactly when both of its dates were empty
  after the fallback stage, and then both dates are the string \<open>Unknown\<close>. A game that
  left the fallback stage with a date keeps its dates and its precision, which is \<open>exact\<close>
  or \<open>estimated\<close>.
\<close>

theorem C6_unknown_iff_no_dates:
  assumes "convertElement L inc tz clock el = Some game"
  shows "\<exists>resolved. classify L inc tz clock el = Some resolved
           \<and> (DatePrecision game = ''unknown''
                \<longleftrightarrow> StartDate resolved = '''' \<and> EndDate resolved = '''')
           \<and> (DatePrecision game = ''unknown''
                \<longrightarrow> StartDate game = ''Unknown'' \<and> EndDate game = ''Unknown'')
           \<and> (\<not> (StartDate resolved = '''' \<and> EndDate resolved = '''')
                \<longrightarrow> game = resolved
                    \<and> (DatePrecision game = ''exact'' \<or> DatePrecision game = ''estimated''))"
proof -
  from assms obtain resolved where
    r: "classify L inc tz clock el = Some resolved" and g: "game = finalGuard resolved"
    by (auto simp: convertElement_def)
  from classify_DatePrecision [OF r]
  have p: "DatePrecision resolved = ''exact'' \<or> DatePrecision resolved = ''estimated''" .
  show ?thesis
  proof (cases "StartDate resolved = '''' \<and> EndDate resolved = ''''")
    case True
    with r g show ?thesis by (simp add: finalGuard_def)
  next
    case False
    then have "game = resolved" using g by (auto simp: finalGuard_def)
    with False p r show ?thesis by auto
  qed
qed

theorem C6_unknown_iff_no_dates_witness:
  "convertElement sampleLib True ''UTC'' (time_Now sampleLib 0)
     (mkElement ''$19.99'' [\<lparr>offer_PromotionalOffers = [mkPromo '''' '''' 100]\<rparr>] [])
    = Some (sampleGame\<lparr>StartDate := ''Unknown'', EndDate := ''Unknown'',
                        DatePrecision := ''unknown''\<rparr>)
   \<and> (\<exists>resolved.
         classify sampleLib True ''UTC'' (time_Now sampleLib 0)
           (mkElement ''$19.99'' [\<lparr>offer_PromotionalOffers = [mkPromo '''' '''' 100]\<rparr>] [])
          = Some resolved
         \<and> StartDate resolved = '''' \<and> EndDate resolved = '''')"
proof -
  have conv: "convertElement sampleLib True ''UTC'' (time_Now sampleLib 0)
     (mkElement ''$19.99'' [\<lparr>offer_PromotionalOffers = [mkPromo '''' '''' 100]\<rparr>] [])
    = Some (sampleGame\<lparr>StartDate := ''Unknown'', EndDate := ''Unknown'',
                        DatePrecision := ''unknown''\<rparr>)"
    by code_simp
  have "DatePrecision (sampleGame\<lparr>StartDate := ''Unknown'', EndDate := ''Unknown'',
                        DatePrecision := ''unknown''\<rparr>) = ''unknown''"
    by simp
  with C6_unknown_iff_no_dates [OF conv] conv show ?thesis by blast
qed

text \<open>
  C1 (as amended). An element with a sub-offer at 100 percent among its current promotions
  is emitted with status \<open>free\<close>. When the renderings by \<open>formatDate\<close> of the start and end
  date of the last such sub-offer, in iteration order, are not both empty, the game has
  these renderings as its dates and precision \<open>exact\<close>. When both are empty and no current
  offer has a first sub-offer with both dates, the game has the dates \<open>Unknown\<close> and the
  precision \<open>unknown\<close>.
\<close>

theorem C1_current_free_last_match:
  assumes "freePromos (PromotionalOffers (Promotions el)) \<noteq> []"
    and "p = last (freePromos (PromotionalOffers (Promotions el)))"
  shows "\<exists>game. convertElement L inc tz clock el = Some game
           \<and> Status game = ''free''
           \<and> (\<not> (formatDate L tz (promo_StartDate p) = ''''
                    \<and> formatDate L tz (promo_EndDate p) = '''')
                \<longrightarrow> StartDate game = formatDate L tz (promo_StartDate p)
                    \<and> EndDate game = formatDate L tz (promo_EndDate p)
                    \<and> DatePrecision game = ''exact'')
           \<and> (formatDate L tz (promo_StartDate p) = ''''
                \<and> formatDate L tz (promo_EndDate p) = ''''
                \<and> find firstSubOfferDated (PromotionalOffers (Promotions el)) = None
                \<longrightarrow> StartDate game = ''Unknown'' \<and> EndDate game = ''Unknown''
                    \<and> DatePrecision game = ''unknown'')"
proof -
  let ?scanned = "withPromo (formatDate L tz) ''free'' p (newGame el)"
  let ?resolved = "fallbackStage (formatDate L tz) (PromotionalOffers (Promotions el)) ?scanned"
  have conv: "convertElement L inc tz clock el = Some (finalGuard ?resolved)"
    using classify_current [OF assms(1), of L inc tz clock] assms(2)
    by (simp add: convertElement_def)
  have status: "Status (finalGuard ?resolved) = ''free''"
    by (simp add: finalGuard_Status fallbackStage_Status withPromo_def)
  have dated: "finalGuard ?resolved = ?scanned"
    if "\<not> (formatDate L tz (promo_StartDate p) = '''' \<and> formatDate L tz (promo_EndDate p) = '''')"
  proof -
    from that have "?resolved = ?scanned"
      by (intro fallbackStage_keeps) (auto simp: withPromo_def)
    with that show ?thesis by (auto simp: finalGuard_def withPromo_def)
  qed
  have undated: "StartDate (finalGuard ?resolved) = ''Unknown''
      \<and> EndDate (finalGuard ?resolved) = ''Unknown''
      \<and> DatePrecision (finalGuard ?resolved) = ''unknown''"
    if "formatDate L tz (promo_StartDate p) = ''''" "formatDate L tz (promo_EndDate p) = ''''"
       "find firstSubOfferDated (PromotionalOffers (Promotions el)) = None"
  proof -
    from that(3) have "?resolved = ?scanned" by (simp add: fallbackStage_find)
    with that(1,2) show ?thesis by (simp add: finalGuard_def withPromo_def)
  qed
  from conv status dated undated show ?thesis by (auto simp: withPromo_def)
qed

theorem C1_current_free_last_match_witness:
  "(\<exists>game.
     convertElement sampleLib True ''UTC+3'' (time_Now sampleLib 0)
       (mkElement ''$19.99''
          [\<lparr>offer_PromotionalOffers =
              [mkPromo ''next week'' ''2025-04-04T15:00:00.000Z'' 100,
               mkPromo ''2025-04-11T15:00:00.000Z'' '''' 75]\<rparr>,
           \<lparr>offer_PromotionalOffers =
              [mkPromo ''2025-04-04T15:00:00.000Z'' ''2025-04-11T15:00:00.000Z'' 100]\<rparr>] [])
      = Some game
     \<and> Status game = ''free''
     \<and> StartDate game = ''2025-04-04 18:00:00 UTC+3''
     \<and> EndDate game = ''2025-04-11 18:00:00 UTC+3''
     \<and> DatePrecision game = ''exact'')
   \<and> (\<exists>game.
     convertElement sampleLib True ''UTC+3'' (time_Now sampleLib 0)
       (mkElement ''$19.99''
          [\<lparr>offer_PromotionalOffers = [mkPromo '''' ''2025-04-11T15:00:00.000Z'' 50,
                                       mkPromo '''' '''' 100]\<rparr>] [])
      = Some game
     \<and> Status game = ''free''
     \<and> StartDate game = ''Unknown'' \<and> EndDate game = ''Unknown''
     \<and> DatePrecision game = ''unknown'')"
proof -
  have matches: "freePromos (PromotionalOffers (Promotions (mkElement ''$19.99''
        [\<lparr>offer_PromotionalOffers =
            [mkPromo ''next week'' ''2025-04-04T15:00:00.000Z'' 100,
             mkPromo ''2025-04-11T15:00:00.000Z'' '''' 75]\<rparr>,
         \<lparr>offer_PromotionalOffers =
            [mkPromo ''2025-04-04T15:00:00.000Z'' ''2025-04-11T15:00:00.000Z'' 100]\<rparr>] [])))
      = [mkPromo ''next week'' ''2025-04-04T15:00:00.000Z'' 100,
         mkPromo ''2025-04-04T15:00:00.000Z'' ''2025-04-11T15:00:00.000Z'' 100]"
    by code_simp
  then have ne: "freePromos (PromotionalOffers (Promotions (mkElement ''$19.99''
        [\<lparr>offer_PromotionalOffers =
            [mkPromo ''next week'' ''2025-04-04T15:00:00.000Z'' 100,
             mkPromo ''2025-04-11T15:00:00.000Z'' '''' 75]\<rparr>,
         \<lparr>offer_PromotionalOffers =
            [mkPromo ''2025-04-04T15:00:00.000Z'' ''2025-04-11T15:00:00.000Z'' 100]\<rparr>] []))) \<noteq> []"
    by simp
  from matches have lst: "mkPromo ''2025-04-04T15:00:00.000Z'' ''2025-04-11T15:00:00.000Z'' 100
      = last (freePromos (PromotionalOffers (Promotions (mkElement ''$19.99''
        [\<lparr>offer_PromotionalOffers =
            [mkPromo ''next week'' ''2025-04-04T15:00:00.000Z'' 100,
             mkPromo ''2025-04-11T15:00:00.000Z'' '''' 75]\<rparr>,
         \<lparr>offer_PromotionalOffers =
            [mkPromo ''2025-04-04T15:00:00.000Z'' ''2025-04-11T15:00:00.000Z'' 100]\<rparr>] []))))"
    by simp
  have fd: "formatDate sampleLib ''UTC+3''
              (promo_StartDate (mkPromo ''2025-04-04T15:00:00.000Z'' ''2025-04-11T15:00:00.000Z'' 100))
              = ''2025-04-04 18:00:00 UTC+3''"
           "formatDate sampleLib ''UTC+3''
              (promo_EndDate (mkPromo ''2025-04-04T15:00:00.000Z'' ''2025-04-11T15:00:00.000Z'' 100))
              = ''2025-04-11 18:00:00 UTC+3''"
    by code_simp+
  from C1_current_free_last_match [OF ne lst, of sampleLib True "''UTC+3''" "time_Now sampleLib 0"]
  have dated: "\<exists>game.
     convertElement sampleLib True ''UTC+3'' (time_Now sampleLib 0)
       (mkElement ''$19.99''
          [\<lparr>offer_PromotionalOffers =
              [mkPromo ''next week'' ''2025-04-04T15:00:00.000Z'' 100,
               mkPromo ''2025-04-11T15:00:00.000Z'' '''' 75]\<rparr>,
           \<lparr>offer_PromotionalOffers =
              [mkPromo ''2025-04-04T15:00:00.000Z'' ''2025-04-11T15:00:00.000Z'' 100]\<rparr>] [])
      = Some game
     \<and> Status game = ''free''
     \<and> StartDate game = ''2025-04-04 18:00:00 UTC+3''
     \<and> EndDate game = ''2025-04-11 18:00:00 UTC+3''
     \<and> DatePrecision game = ''exact''"
    unfolding fd by auto
  have matches': "freePromos (PromotionalOffers (Promotions (mkElement ''$19.99''
          [\<lparr>offer_PromotionalOffers = [mkPromo '''' ''2025-04-11T15:00:00.000Z'' 50,
                                       mkPromo '''' '''' 100]\<rparr>] [])))
      = [mkPromo '''' '''' 100]"
    by code_simp
  then have ne': "freePromos (PromotionalOffers (Promotions (mkElement ''$19.99''
          [\<lparr>offer_PromotionalOffers = [mkPromo '''' ''2025-04-11T15:00:00.000Z'' 50,
                                       mkPromo '''' '''' 100]\<rparr>] []))) \<noteq> []"
    by simp
  from matches' have lst': "mkPromo '''' '''' 100
      = last (freePromos (PromotionalOffers (Promotions (mkElement ''$19.99''
          [\<lparr>offer_PromotionalOffers = [mkPromo '''' ''2025-04-11T15:00:00.000Z'' 50,
                                       mkPromo '''' '''' 100]\<rparr>] []))))"
    by simp
  have fd': "formatDate sampleLib ''UTC+3'' (promo_StartDate (mkPromo '''' '''' 100)) = ''''"
            "formatDate sampleLib ''UTC+3'' (promo_EndDate (mkPromo '''' '''' 100)) = ''''"
    by code_simp+
  have nofallback: "find firstSubOfferDated (PromotionalOffers (Promotions (mkElement ''$19.99''
          [\<lparr>offer_PromotionalOffers = [mkPromo '''' ''2025-04-11T15:00:00.000Z'' 50,
                                       mkPromo '''' '''' 100]\<rparr>] []))) = None"
    by code_simp
  from C1_current_free_last_match [OF ne' lst', of sampleLib True "''UTC+3''" "time_Now sampleLib 0"]
       fd' nofallback
  have undated: "\<exists>game.
     convertElement sampleLib True ''UTC+3'' (time_Now sampleLib 0)
       (mkElement ''$19.99''
          [\<lparr>offer_PromotionalOffers = [mkPromo '''' ''2025-04-11T15:00:00.000Z'' 50,
                                       mkPromo '''' '''' 100]\<rparr>] [])
      = Some game
     \<and> Status game = ''free''
     \<and> StartDate game = ''Unknown'' \<and> EndDate game = ''Unknown''
     \<and> DatePrecision game = ''unknown''"
    by auto
  from dated undated show ?thesis by blast
qed

text \<open>
  The claim as it was stated fails on an element whose only sub-offer at 100 percent has
  no dates: the game has the dates \<open>Unknown\<close> and the precision \<open>unknown\<close>.
\<close>

theorem C1_counterexample:
  "freePromos (PromotionalOffers (Promotions
      (mkElement ''$19.99'' [\<lparr>offer_PromotionalOffers = [mkPromo '''' '''' 100]\<rparr>] [])))
     = [mkPromo '''' '''' 100]
   \<and> convertElement sampleLib True ''UTC'' (time_Now sampleLib 0)
       (mkElement ''$19.99'' [\<lparr>offer_PromotionalOffers = [mkPromo '''' '''' 100]\<rparr>] [])
      = Some \<lparr>Title = ''Cat Quest II'', Description = ''Open-world action-RPG'',
              ImageURL = ''https://cdn1.epicgames.com/cq2.jpg'',
              URL = ''https://store.epicgames.com/en-US/p/cat-quest-ii'',
              Status = ''free'', StartDate = ''Unknown'', EndDate = ''Unknown'',
              DatePrecision = ''unknown'', Publisher = ''Kepler Interactive''\<rparr>"
  by code_simp

text \<open>
  C2 (as amended). An element whose sub-offers at 100 percent are all among its upcoming
  promotions is emitted with status \<open>coming soon\<close> when upcoming games are requested. When
  they are not requested the upcoming promotions are not read: the element is skipped if
  its discount price fails the free test, and emitted with status \<open>free\<close> if it passes.
\<close>

theorem C2_upcoming_only:
  assumes "freePromos (PromotionalOffers (Promotions el)) = []"
    and "freePromos (UpcomingPromotionalOffers (Promotions el)) \<noteq> []"
  shows "(\<exists>game. convertElement L True tz clock el = Some game \<and> Status game = ''coming soon'')
         \<and> (\<not> freePrice (DiscountPrice el) \<longrightarrow>
               convertElement L False tz clock el = None
               \<and> fetchFreeGames L (Decoded (before @ el # after)) False tz =
                   Inr (convertElements L False tz 0 before
                          @ convertElements L False tz (Suc (length before)) after))
         \<and> (freePrice (DiscountPrice el) \<longrightarrow>
               (\<exists>game. convertElement L False tz clock el = Some game \<and> Status game = ''free''))"
proof -
  have soon: "\<exists>game. convertElement L True tz clock el = Some game \<and> Status game = ''coming soon''"
    using classify_upcoming [OF assms, of L tz clock]
    by (simp add: convertElement_def finalGuard_Status withPromo_def)
  have off: "classify L False tz c el =
           (if freePrice (DiscountPrice el)
            then Some (fallbackStage (formatDate L tz) (PromotionalOffers (Promotions el))
                         (estimateDates L tz c (newGame el)))
            else None)" for c
    using classify_price [OF assms(1), of False L tz c] by simp
  have skipped: "convertElement L False tz c el = None" if "\<not> freePrice (DiscountPrice el)" for c
    using that off [of c] by (simp add: convertElement_def)
  have free: "\<exists>game. convertElement L False tz clock el = Some game \<and> Status game = ''free''"
    if "freePrice (DiscountPrice el)"
    using that off [of clock]
    by (simp add: convertElement_def finalGuard_Status fallbackStage_Status estimateDates_def
          Let_def)
  from skipped have list: "fetchFreeGames L (Decoded (before @ el # after)) False tz =
      Inr (convertElements L False tz 0 before
             @ convertElements L False tz (Suc (length before)) after)"
    if "\<not> freePrice (DiscountPrice el)"
    using that by (simp add: fetchFreeGames_def convertElements_append)
  from soon skipped list free show ?thesis by blast
qed

theorem C2_upcoming_only_witness:
  "(\<exists>game. convertElement sampleLib True ''UTC'' (time_Now sampleLib 0)
       (mkElement ''$19.99'' []
          [\<lparr>offer_PromotionalOffers =
              [mkPromo ''2025-04-04T15:00:00.000Z'' ''2025-04-11T15:00:00.000Z'' 100]\<rparr>])
      = Some game \<and> Status game = ''coming soon'')
   \<and> convertElement sampleLib False ''UTC'' (time_Now sampleLib 0)
       (mkElement ''$19.99'' []
          [\<lparr>offer_PromotionalOffers =
              [mkPromo ''2025-04-04T15:00:00.000Z'' ''2025-04-11T15:00:00.000Z'' 100]\<rparr>])
      = None
   \<and> (\<exists>game. convertElement sampleLib False ''UTC'' (time_Now sampleLib 0)
       (mkElement ''0'' []
          [\<lparr>offer_PromotionalOffers =
              [mkPromo ''2025-04-04T15:00:00.000Z'' ''2025-04-11T15:00:00.000Z'' 100]\<rparr>])
      = Some game \<and> Status game = ''free'')"
proof -
  have cur: "freePromos (PromotionalOffers (Promotions (mkElement price []
          [\<lparr>offer_PromotionalOffers =
              [mkPromo ''2025-04-04T15:00:00.000Z'' ''2025-04-11T15:00:00.000Z'' 100]\<rparr>]))) = []"
    for price
    by (simp add: mkElement_def freePromos_def subOffers_def)
  have upc: "freePromos (UpcomingPromotionalOffers (Promotions (mkElement price []
          [\<lparr>offer_PromotionalOffers =
              [mkPromo ''2025-04-04T15:00:00.000Z'' ''2025-04-11T15:00:00.000Z'' 100]\<rparr>]))) \<noteq> []"
    for price
    by (simp add: mkElement_def freePromos_def subOffers_def mkPromo_def)
  have paid: "\<not> freePrice (DiscountPrice (mkElement ''$19.99'' []
          [\<lparr>offer_PromotionalOffers =
              [mkPromo ''2025-04-04T15:00:00.000Z'' ''2025-04-11T15:00:00.000Z'' 100]\<rparr>]))"
    by code_simp
  have zero: "freePrice (DiscountPrice (mkElement ''0'' []
          [\<lparr>offer_PromotionalOffers =
              [mkPromo ''2025-04-04T15:00:00.000Z'' ''2025-04-11T15:00:00.000Z'' 100]\<rparr>]))"
    by code_simp
  from C2_upcoming_only [OF cur [of "''$19.99''"] upc [of "''$19.99''"],
              where L = sampleLib and tz = "''UTC''" and clock = "time_Now sampleLib 0"] paid
  have a: "(\<exists>game. convertElement sampleLib True ''UTC'' (time_Now sampleLib 0)
       (mkElement ''$19.99'' []
          [\<lparr>offer_PromotionalOffers =
              [mkPromo ''2025-04-04T15:00:00.000Z'' ''2025-04-11T15:00:00.000Z'' 100]\<rparr>])
      = Some game \<and> Status game = ''coming soon'')
   \<and> convertElement sampleLib False ''UTC'' (time_Now sampleLib 0)
       (mkElement ''$19.99'' []
          [\<lparr>offer_PromotionalOffers =
              [mkPromo ''2025-04-04T15:00:00.000Z'' ''2025-04-11T15:00:00.000Z'' 100]\<rparr>])
      = None"
    by blast
  from C2_upcoming_only [OF cur [of "''0''"] upc [of "''0''"],
              where L = sampleLib and tz = "''UTC''" and clock = "time_Now sampleLib 0"] zero
  have b: "\<exists>game. convertElement sampleLib False ''UTC'' (time_Now sampleLib 0)
       (mkElement ''0'' []
          [\<lparr>offer_PromotionalOffers =
              [mkPromo ''2025-04-04T15:00:00.000Z'' ''2025-04-11T15:00:00.000Z'' 100]\<rparr>])
      = Some game \<and> Status game = ''free''"
    by blast
  from a b show ?thesis by blast
qed

text \<open>
  The claim as it was stated fails when upcoming games are not requested and the price of
  the element is empty: the element is in the output, with status \<open>free\<close>.
\<close>

theorem C2_counterexample:
  "freePromos (PromotionalOffers (Promotions
      (mkElement '''' []
         [\<lparr>offer_PromotionalOffers =
             [mkPromo ''2025-04-04T15:00:00.000Z'' ''2025-04-11T15:00:00.000Z'' 100]\<rparr>]))) = []
   \<and> freePromos (UpcomingPromotionalOffers (Promotions
      (mkElement '''' []
         [\<lparr>offer_PromotionalOffers =
             [mkPromo ''2025-04-04T15:00:00.000Z'' ''2025-04-11T15:00:00.000Z'' 100]\<rparr>])))
      = [mkPromo ''2025-04-04T15:00:00.000Z'' ''2025-04-11T15:00:00.000Z'' 100]
   \<and> fetchFreeGames sampleLib
       (Decoded [mkElement '''' []
         [\<lparr>offer_PromotionalOffers =
             [mkPromo ''2025-04-04T15:00:00.000Z'' ''2025-04-11T15:00:00.000Z'' 100]\<rparr>]])
       False ''UTC''
      = Inr [\<lparr>Title = ''Cat Quest II'', Description = ''Open-world action-RPG'',
          ImageURL = ''https://cdn1.epicgames.com/cq2.jpg'',
          URL = ''https://store.epicgames.com/en-US/p/cat-quest-ii'',
          Status = ''free'', StartDate = ''2025-04-06 09:30:00 UTC'',
          EndDate = ''2025-04-13 09:30:00 UTC'', DatePrecision = ''estimated'',
          Publisher = ''Kepler Interactive''\<rparr>]"
  by code_simp

text \<open>
  C3 (as amended). An element with no sub-offer at 100 percent that was read, with a discount
  price that is \<open>$0.00\<close>, \<open>0\<close>, empty or contains \<open>free\<close> in any case, and with no current offer
  whose first sub-offer has both dates, is emitted with status \<open>free\<close> and precision
  \<open>estimated\<close>; its start date is the clock's time rendered in the resolved zone and its end
  date is the rendering of that time moved on by \<open>AddDate(0, 0, 7)\<close>. This is stated for the
  time zone strings that \<open>time.LoadLocation\<close> knows or that do not start with \<open>UTC\<close> or \<open>GMT\<close>,
  and for a rendering of the time that is not empty, as every rendering by Go is.
\<close>

theorem C3_estimated_from_price:
  assumes "freePromos (PromotionalOffers (Promotions el)) = []"
    and "\<not> inc \<or> freePromos (UpcomingPromotionalOffers (Promotions el)) = []"
    and "DiscountPrice el = ''$0.00'' \<or> DiscountPrice el = ''0'' \<or> DiscountPrice el = ''''
         \<or> Contains (ToLower (DiscountPrice el)) ''free''"
    and "find firstSubOfferDated (PromotionalOffers (Promotions el)) = None"
    and "time_LoadLocation L tz \<noteq> None \<or> \<not> (HasPrefix tz ''UTC'' \<or> HasPrefix tz ''GMT'')"
    and "now = time_In L clock (resolveLocation L tz)"
    and "time_Format L now dateLayout \<noteq> ''''"
  shows "\<exists>game. convertElement L inc tz clock el = Some game
           \<and> Status game = ''free'' \<and> DatePrecision game = ''estimated''
           \<and> StartDate game = time_Format L now dateLayout
           \<and> EndDate game = time_Format L (time_AddDate L now 0 0 7) dateLayout"
proof -
  from assms(5) have zone: "estimateLocation L tz = resolveLocation L tz"
    by (auto simp: estimateLocation_def resolveLocation_def split: option.splits)
  let ?estimated = "estimateDates L tz clock (newGame el)"
  have est: "Status ?estimated = ''free''" "DatePrecision ?estimated = ''estimated''"
    "StartDate ?estimated = time_Format L now dateLayout"
    "EndDate ?estimated = time_Format L (time_AddDate L now 0 0 7) dateLayout"
    by (simp_all add: estimateDates_def Let_def zone assms(6))
  from assms(3) have "freePrice (DiscountPrice el)" by (simp add: freePrice_def)
  with classify_price [OF assms(1,2), of L tz clock]
  have "classify L inc tz clock el =
          Some (fallbackStage (formatDate L tz) (PromotionalOffers (Promotions el)) ?estimated)"
    by simp
  moreover have "fallbackStage (formatDate L tz) (PromotionalOffers (Promotions el)) ?estimated
      = ?estimated"
    using assms(4) by (simp add: fallbackStage_find)
  moreover have "finalGuard ?estimated = ?estimated"
    using est(3) assms(7) by (simp add: finalGuard_def)
  ultimately have "convertElement L inc tz clock el = Some ?estimated"
    by (simp add: convertElement_def)
  with est show ?thesis by blast
qed

theorem C3_estimated_from_price_witness:
  "\<exists>game. convertElement sampleLib True ''Mars/Phobos'' (time_Now sampleLib 0)
       (mkElement ''Free to play''
          [\<lparr>offer_PromotionalOffers = [mkPromo '''' ''2025-04-11T15:00:00.000Z'' 50]\<rparr>]
          [\<lparr>offer_PromotionalOffers =
              [mkPromo ''2025-04-04T15:00:00.000Z'' ''2025-04-11T15:00:00.000Z'' 60]\<rparr>])
      = Some game
     \<and> Status game = ''free'' \<and> DatePrecision game = ''estimated''
     \<and> StartDate game = ''2025-04-06 17:30:00 UTC+8''
     \<and> EndDate game = ''2025-04-13 17:30:00 UTC+8''"
proof -
  have h1: "freePromos (PromotionalOffers (Promotions (mkElement ''Free to play''
          [\<lparr>offer_PromotionalOffers = [mkPromo '''' ''2025-04-11T15:00:00.000Z'' 50]\<rparr>]
          [\<lparr>offer_PromotionalOffers =
              [mkPromo ''2025-04-04T15:00:00.000Z'' ''2025-04-11T15:00:00.000Z'' 60]\<rparr>]))) = []"
    by code_simp
  have h2: "\<not> True \<or> freePromos (UpcomingPromotionalOffers (Promotions (mkElement ''Free to play''
          [\<lparr>offer_PromotionalOffers = [mkPromo '''' ''2025-04-11T15:00:00.000Z'' 50]\<rparr>]
          [\<lparr>offer_PromotionalOffers =
              [mkPromo ''2025-04-04T15:00:00.000Z'' ''2025-04-11T15:00:00.000Z'' 60]\<rparr>]))) = []"
    by code_simp
  have h3: "DiscountPrice (mkElement ''Free to play''
          [\<lparr>offer_PromotionalOffers = [mkPromo '''' ''2025-04-11T15:00:00.000Z'' 50]\<rparr>]
          [\<lparr>offer_PromotionalOffers =
              [mkPromo ''2025-04-04T15:00:00.000Z'' ''2025-04-11T15:00:00.000Z'' 60]\<rparr>]) = ''$0.00''
     \<or> DiscountPrice (mkElement ''Free to play''
          [\<lparr>offer_PromotionalOffers = [mkPromo '''' ''2025-04-11T15:00:00.000Z'' 50]\<rparr>]
          [\<lparr>offer_PromotionalOffers =
              [mkPromo ''2025-04-04T15:00:00.000Z'' ''2025-04-11T15:00:00.000Z'' 60]\<rparr>]) = ''0''
     \<or> DiscountPrice (mkElement ''Free to play''
          [\<lparr>offer_PromotionalOffers = [mkPromo '''' ''2025-04-11T15:00:00.000Z'' 50]\<rparr>]
          [\<lparr>offer_PromotionalOffers =
              [mkPromo ''2025-04-04T15:00:00.000Z'' ''2025-04-11T15:00:00.000Z'' 60]\<rparr>]) = ''''
     \<or> Contains (ToLower (DiscountPrice (mkElement ''Free to play''
          [\<lparr>offer_PromotionalOffers = [mkPromo '''' ''2025-04-11T15:00:00.000Z'' 50]\<rparr>]
          [\<lparr>offer_PromotionalOffers =
              [mkPromo ''2025-04-04T15:00:00.000Z'' ''2025-04-11T15:00:00.000Z'' 60]\<rparr>]))) ''free''"
    by code_simp
  have h4: "find firstSubOfferDated (PromotionalOffers (Promotions (mkElement ''Free to play''
          [\<lparr>offer_PromotionalOffers = [mkPromo '''' ''2025-04-11T15:00:00.000Z'' 50]\<rparr>]
          [\<lparr>offer_PromotionalOffers =
              [mkPromo ''2025-04-04T15:00:00.000Z'' ''2025-04-11T15:00:00.000Z'' 60]\<rparr>]))) = None"
    by code_simp
  have h5: "time_LoadLocation sampleLib ''Mars/Phobos'' \<noteq> None
      \<or> \<not> (HasPrefix ''Mars/Phobos'' ''UTC'' \<or> HasPrefix ''Mars/Phobos'' ''GMT'')"
    by code_simp
  have h6: "(1743931800, FixedZone ''UTC+8'' 28800)
      = time_In sampleLib (time_Now sampleLib 0) (resolveLocation sampleLib ''Mars/Phobos'')"
    by code_simp
  have fmt: "time_Format sampleLib (1743931800, FixedZone ''UTC+8'' 28800) dateLayout
      = ''2025-04-06 17:30:00 UTC+8''"
    "time_Format sampleLib
       (time_AddDate sampleLib (1743931800, FixedZone ''UTC+8'' 28800) 0 0 7) dateLayout
      = ''2025-04-13 17:30:00 UTC+8''"
    by code_simp+
  have h7: "time_Format sampleLib (1743931800, FixedZone ''UTC+8'' 28800) dateLayout \<noteq> ''''"
    unfolding fmt by simp
  from C3_estimated_from_price [OF h1 h2 h3 h4 h5 h6 h7]
  show ?thesis unfolding fmt .
qed

text \<open>
  The claim as it was stated fails on an element at the price \<open>$0.00\<close> with a current offer
  at 50 percent that has both dates: the fallback stage takes these dates, and the
  precision is \<open>exact\<close>.
\<close>

theorem C3_counterexample:
  "freePromos (PromotionalOffers (Promotions
      (mkElement ''$0.00''
         [\<lparr>offer_PromotionalOffers =
             [mkPromo ''2025-04-04T15:00:00.000Z'' ''2025-04-11T15:00:00.000Z'' 50]\<rparr>] []))) = []
   \<and> freePromos (UpcomingPromotionalOffers (Promotions
      (mkElement ''$0.00''
         [\<lparr>offer_PromotionalOffers =
             [mkPromo ''2025-04-04T15:00:00.000Z'' ''2025-04-11T15:00:00.000Z'' 50]\<rparr>] []))) = []
   \<and> convertElement sampleLib True ''UTC'' (time_Now sampleLib 0)
       (mkElement ''$0.00''
         [\<lparr>offer_PromotionalOffers =
             [mkPromo ''2025-04-04T15:00:00.000Z'' ''2025-04-11T15:00:00.000Z'' 50]\<rparr>] [])
      = Some \<lparr>Title = ''Cat Quest II'', Description = ''Open-world action-RPG'',
          ImageURL = ''https://cdn1.epicgames.com/cq2.jpg'',
          URL = ''https://store.epicgames.com/en-US/p/cat-quest-ii'',
          Status = ''free'', StartDate = ''2025-04-04 15:00:00 UTC'',
          EndDate = ''2025-04-11 15:00:00 UTC'', DatePrecision = ''exact'',
          Publisher = ''Kepler Interactive''\<rparr>"
  by code_simp

text \<open>
  C10. There are elements that are emitted with exactly one empty date. \<open>formatDate\<close> gives
  the empty string back (Go parses no time from it). When the last current sub-offer at
  100 percent has an empty start date and an end date with a rendering, or the other way
  round, the fallback stage and the final guard, which both ask for two empty dates, leave
  the game alone: it has one empty date and the precision \<open>exact\<close>.
\<close>

theorem C10_single_empty_date:
  assumes "time_Parse L RFC3339 '''' = None"
    and "freePromos (PromotionalOffers (Promotions el)) \<noteq> []"
    and "p = last (freePromos (PromotionalOffers (Promotions el)))"
    and "promo_StartDate p = '''' \<and> formatDate L tz (promo_EndDate p) \<noteq> ''''
         \<or> formatDate L tz (promo_StartDate p) \<noteq> '''' \<and> promo_EndDate p = ''''"
  shows "formatDate L tz '''' = ''''
         \<and> (\<exists>game. convertElement L inc tz clock el = Some game
               \<and> StartDate game = formatDate L tz (promo_StartDate p)
               \<and> EndDate game = formatDate L tz (promo_EndDate p)
               \<and> (StartDate game = '''') \<noteq> (EndDate game = '''')
               \<and> DatePrecision game = ''exact'')"
proof -
  let ?scanned = "withPromo (formatDate L tz) ''free'' p (newGame el)"
  from assms(1) have empty: "formatDate L tz '''' = ''''" by (simp add: formatDate_def)
  with assms(4) have one:
    "(formatDate L tz (promo_StartDate p) = '''') \<noteq> (formatDate L tz (promo_EndDate p) = '''')"
    by auto
  then have keep: "fallbackStage (formatDate L tz) (PromotionalOffers (Promotions el)) ?scanned
      = ?scanned"
    by (intro fallbackStage_keeps) (auto simp: withPromo_def)
  from one have guard: "finalGuard ?scanned = ?scanned"
    by (auto simp: finalGuard_def withPromo_def)
  from classify_current [OF assms(2), of L inc tz clock] assms(3) keep guard
  have "convertElement L inc tz clock el = Some ?scanned"
    by (simp add: convertElement_def)
  with one empty show ?thesis by (auto simp: withPromo_def)
qed

theorem C10_single_empty_date_witness:
  "formatDate sampleLib ''UTC'' '''' = ''''
   \<and> (\<exists>game. convertElement sampleLib True ''UTC'' (time_Now sampleLib 0)
         (mkElement ''$19.99''
            [\<lparr>offer_PromotionalOffers = [mkPromo '''' ''2025-04-11T15:00:00.000Z'' 100]\<rparr>] [])
        = Some game
       \<and> StartDate game = '''' \<and> EndDate game = ''2025-04-11 15:00:00 UTC''
       \<and> DatePrecision game = ''exact'')"
proof -
  have h1: "time_Parse sampleLib RFC3339 '''' = None" by code_simp
  have matches: "freePromos (PromotionalOffers (Promotions (mkElement ''$19.99''
            [\<lparr>offer_PromotionalOffers = [mkPromo '''' ''2025-04-11T15:00:00.000Z'' 100]\<rparr>] [])))
      = [mkPromo '''' ''2025-04-11T15:00:00.000Z'' 100]"
    by code_simp
  then have h2: "freePromos (PromotionalOffers (Promotions (mkElement ''$19.99''
            [\<lparr>offer_PromotionalOffers = [mkPromo '''' ''2025-04-11T15:00:00.000Z'' 100]\<rparr>] [])))
      \<noteq> []"
    by simp
  from matches have h3: "mkPromo '''' ''2025-04-11T15:00:00.000Z'' 100
      = last (freePromos (PromotionalOffers (Promotions (mkElement ''$19.99''
            [\<lparr>offer_PromotionalOffers = [mkPromo '''' ''2025-04-11T15:00:00.000Z'' 100]\<rparr>] []))))"
    by simp
  have fd: "formatDate sampleLib ''UTC'' (promo_StartDate (mkPromo '''' ''2025-04-11T15:00:00.000Z'' 100))
              = ''''"
           "formatDate sampleLib ''UTC'' (promo_EndDate (mkPromo '''' ''2025-04-11T15:00:00.000Z'' 100))
              = ''2025-04-11 15:00:00 UTC''"
    by code_simp+
  have h4: "promo_StartDate (mkPromo '''' ''2025-04-11T15:00:00.000Z'' 100) = ''''
      \<and> formatDate sampleLib ''UTC'' (promo_EndDate (mkPromo '''' ''2025-04-11T15:00:00.000Z'' 100)) \<noteq> ''''
    \<or> formatDate sampleLib ''UTC'' (promo_StartDate (mkPromo '''' ''2025-04-11T15:00:00.000Z'' 100)) \<noteq> ''''
      \<and> promo_EndDate (mkPromo '''' ''2025-04-11T15:00:00.000Z'' 100) = ''''"
    unfolding fd by (simp add: mkPromo_def)
  from C10_single_empty_date [OF h1 h2 h3 h4, of True "time_Now sampleLib 0"]
  show ?thesis unfolding fd by auto
qed

text \<open>
  C7 (as amended). The time zone resolution of \<open>formatDate\<close> is a total function: it has a
  location for every string and no error. A name that \<open>time.LoadLocation\<close> knows gives its
  zone. Of the other strings, those that start with \<open>UTC\<close> or \<open>GMT\<close> (and not with \<open>UTCGMT\<close>)
  are decided by what follows the prefix: nothing gives \<open>time.UTC\<close>; a decimal integer
  \<open>h\<close>, with or without a sign and with \<open>h * 3600\<close> in the range of 64 bits, gives the fixed
  zone of \<open>h * 3600\<close> seconds; a remainder that starts neither with white space nor with a
  digit, nor with a sign and a digit, gives the fixed zone \<open>UTC+8\<close>. Every string without
  the prefix gives the fixed zone \<open>UTC+8\<close>. So \<open>UTC+3\<close> is the fixed zone of 3 hours and
  \<open>Mars/Phobos\<close> is the fixed zone \<open>UTC+8\<close>.
\<close>

theorem C7_timezone_resolution:
  "(\<forall>location. time_LoadLocation L tz = Some location \<longrightarrow> resolveLocation L tz = location)
   \<and> (time_LoadLocation L tz = None \<and> (HasPrefix tz ''UTC'' \<or> HasPrefix tz ''GMT'')
        \<and> \<not> HasPrefix tz ''UTCGMT'' \<longrightarrow>
        (drop 3 tz = '''' \<longrightarrow> resolveLocation L tz = UTC)
        \<and> (\<forall>sign digits h.
              drop 3 tz = sign @ digits \<and> (sign = '''' \<or> sign = ''+'' \<or> sign = ''-'')
              \<and> digits \<noteq> '''' \<and> (\<forall>c \<in> set digits. isDigit c)
              \<and> h = (if sign = ''-'' then - decimal digits else decimal digits)
              \<and> - (2 ^ 63) \<le> h * 3600 \<and> h * 3600 < 2 ^ 63
              \<longrightarrow> resolveLocation L tz = FixedZone tz (word_of_int (h * 3600))
                  \<and> sint (word_of_int (h * 3600) :: go_int) = h * 3600)
        \<and> (\<forall>c cs.
              drop 3 tz = c # cs \<and> \<not> isDigit c \<and> spaceWidth (c # cs) = 0
              \<and> (c = CHR ''+'' \<or> c = CHR ''-'' \<longrightarrow> cs = [] \<or> \<not> isDigit (hd cs))
              \<longrightarrow> resolveLocation L tz = FixedZone ''UTC+8'' 28800))
   \<and> (time_LoadLocation L tz = None \<and> \<not> HasPrefix tz ''UTC'' \<and> \<not> HasPrefix tz ''GMT''
        \<longrightarrow> resolveLocation L tz = FixedZone ''UTC+8'' 28800)
   \<and> (time_LoadLocation L ''UTC+3'' = None
        \<longrightarrow> resolveLocation L ''UTC+3'' = FixedZone ''UTC+3'' 10800)
   \<and> (time_LoadLocation L ''Mars/Phobos'' = None
        \<longrightarrow> resolveLocation L ''Mars/Phobos'' = FixedZone ''UTC+8'' 28800)"
proof -
  have known: "resolveLocation L tz = location" if "time_LoadLocation L tz = Some location"
    for location
    using that by (simp add: resolveLocation_def)
  have other: "resolveLocation L tz = FixedZone ''UTC+8'' 28800"
    if "time_LoadLocation L tz = None" "\<not> HasPrefix tz ''UTC''" "\<not> HasPrefix tz ''GMT''"
    using that by (simp add: resolveLocation_def fallbackZone_def)
  have prefixed: "resolveLocation L tz =
      (if drop 3 tz = '''' then UTC
       else case Sscanf_d (drop 3 tz) of
              Some offsetHours \<Rightarrow> FixedZone tz (offsetHours * 60 * 60)
            | None \<Rightarrow> fallbackZone)"
    if "time_LoadLocation L tz = None" "HasPrefix tz ''UTC'' \<or> HasPrefix tz ''GMT''"
       "\<not> HasPrefix tz ''UTCGMT''"
    using that by (simp add: resolveLocation_def trim_single_prefix Let_def)
  have empty: "resolveLocation L tz = UTC"
    if "time_LoadLocation L tz = None" "HasPrefix tz ''UTC'' \<or> HasPrefix tz ''GMT''"
       "\<not> HasPrefix tz ''UTCGMT''" "drop 3 tz = ''''"
    using prefixed [OF that(1-3)] that(4) by simp
  have integer: "resolveLocation L tz = FixedZone tz (word_of_int (h * 3600))
                 \<and> sint (word_of_int (h * 3600) :: go_int) = h * 3600"
    if "time_LoadLocation L tz = None" "HasPrefix tz ''UTC'' \<or> HasPrefix tz ''GMT''"
       "\<not> HasPrefix tz ''UTCGMT''" "drop 3 tz = sign @ digits"
       "sign = '''' \<or> sign = ''+'' \<or> sign = ''-''" "digits \<noteq> ''''" "\<forall>c \<in> set digits. isDigit c"
       "h = (if sign = ''-'' then - decimal digits else decimal digits)"
       "- (2 ^ 63) \<le> h * 3600" "h * 3600 < 2 ^ 63"
    for sign digits h
  proof -
    from that(9,10) have range: "- (2 ^ 63) \<le> h" "h < 2 ^ 63" by auto
    from Sscanf_d_integer [OF that(5-7) that(8) range] that(4)
    have scan: "Sscanf_d (drop 3 tz) = Some (word_of_int h)" by simp
    from that(4,6) have "drop 3 tz \<noteq> ''''" by simp
    with prefixed [OF that(1-3)] scan
    have "resolveLocation L tz = FixedZone tz (word_of_int h * 60 * 60)" by simp
    moreover have "(word_of_int h * 60 * 60 :: go_int) = word_of_int (h * 3600)" by simp
    moreover from that(9,10) have "sint (word_of_int (h * 3600) :: go_int) = h * 3600"
      by (rule sint_go_int)
    ultimately show ?thesis by simp
  qed
  have invalid: "resolveLocation L tz = FixedZone ''UTC+8'' 28800"
    if "time_LoadLocation L tz = None" "HasPrefix tz ''UTC'' \<or> HasPrefix tz ''GMT''"
       "\<not> HasPrefix tz ''UTCGMT''" "drop 3 tz = c # cs" "\<not> isDigit c" "spaceWidth (c # cs) = 0"
       "c = CHR ''+'' \<or> c = CHR ''-'' \<longrightarrow> cs = [] \<or> \<not> isDigit (hd cs)"
    for c cs
  proof -
    from Sscanf_d_no_integer [OF that(5-7)] that(4)
    have "Sscanf_d (drop 3 tz) = None" by simp
    with prefixed [OF that(1-3)] that(4) show ?thesis by (simp add: fallbackZone_def)
  qed
  have three: "resolveLocation L ''UTC+3'' = FixedZone ''UTC+3'' 10800"
    if "time_LoadLocation L ''UTC+3'' = None"
  proof -
    have "Sscanf_d ''+3'' = Some 3" by code_simp
    with that show ?thesis
      by (simp add: resolveLocation_def HasPrefix_def TrimPrefix_def Let_def)
  qed
  have phobos: "resolveLocation L ''Mars/Phobos'' = FixedZone ''UTC+8'' 28800"
    if "time_LoadLocation L ''Mars/Phobos'' = None"
    using that by (simp add: resolveLocation_def fallbackZone_def HasPrefix_def)
  from known other empty integer invalid three phobos show ?thesis by blast
qed

theorem C7_timezone_resolution_witness:
  "resolveLocation sampleLib ''Asia/Manila'' = Zone ''Asia/Manila''
   \<and> resolveLocation bareLib ''GMT'' = UTC
   \<and> resolveLocation sampleLib ''UTC+3'' = FixedZone ''UTC+3'' 10800
   \<and> resolveLocation sampleLib ''GMT-5'' = FixedZone ''GMT-5'' (- 18000)
   \<and> resolveLocation sampleLib ''UTC+x'' = FixedZone ''UTC+8'' 28800
   \<and> resolveLocation sampleLib ''Mars/Phobos'' = FixedZone ''UTC+8'' 28800"
proof -
  have manila: "time_LoadLocation sampleLib ''Asia/Manila'' = Some (Zone ''Asia/Manila'')"
    by (simp add: sampleLib_def)
  from manila C7_timezone_resolution [of sampleLib "''Asia/Manila''"]
  have a: "resolveLocation sampleLib ''Asia/Manila'' = Zone ''Asia/Manila''" by blast
  have gmt: "time_LoadLocation bareLib ''GMT'' = None
      \<and> (HasPrefix ''GMT'' ''UTC'' \<or> HasPrefix ''GMT'' ''GMT'') \<and> \<not> HasPrefix ''GMT'' ''UTCGMT''"
    "drop 3 ''GMT'' = ''''"
    by (simp_all add: bareLib_def sampleLib_def HasPrefix_def)
  from gmt C7_timezone_resolution [of bareLib "''GMT''"]
  have b: "resolveLocation bareLib ''GMT'' = UTC" by blast
  have three: "time_LoadLocation sampleLib ''UTC+3'' = None" by (simp add: sampleLib_def)
  from three C7_timezone_resolution [of sampleLib "''UTC+3''"]
  have c: "resolveLocation sampleLib ''UTC+3'' = FixedZone ''UTC+3'' 10800" by blast
  have five: "time_LoadLocation sampleLib ''GMT-5'' = None
      \<and> (HasPrefix ''GMT-5'' ''UTC'' \<or> HasPrefix ''GMT-5'' ''GMT'')
      \<and> \<not> HasPrefix ''GMT-5'' ''UTCGMT''"
    by (simp add: sampleLib_def HasPrefix_def)
  have minus: "drop 3 ''GMT-5'' = ''-'' @ ''5'' \<and> (''-'' = '''' \<or> ''-'' = ''+'' \<or> ''-'' = ''-'')
      \<and> ''5'' \<noteq> '''' \<and> (\<forall>c \<in> set ''5''. isDigit c)
      \<and> (- 5 :: int) = (if ''-'' = ''-'' then - decimal ''5'' else decimal ''5'')
      \<and> - (2 ^ 63) \<le> (- 5 :: int) * 3600 \<and> (- 5 :: int) * 3600 < 2 ^ 63"
    by (simp add: isDigit_def decimal_def)
  from five C7_timezone_resolution [of sampleLib "''GMT-5''"]
  have "\<forall>sign digits h.
          drop 3 ''GMT-5'' = sign @ digits \<and> (sign = '''' \<or> sign = ''+'' \<or> sign = ''-'')
          \<and> digits \<noteq> '''' \<and> (\<forall>c \<in> set digits. isDigit c)
          \<and> h = (if sign = ''-'' then - decimal digits else decimal digits)
          \<and> - (2 ^ 63) \<le> h * 3600 \<and> h * 3600 < 2 ^ 63
          \<longrightarrow> resolveLocation sampleLib ''GMT-5'' = FixedZone ''GMT-5'' (word_of_int (h * 3600))
              \<and> sint (word_of_int (h * 3600) :: go_int) = h * 3600"
    by blast
  from this [rule_format, of "''-''" "''5''" "- 5", OF minus]
  have d: "resolveLocation sampleLib ''GMT-5'' = FixedZone ''GMT-5'' (- 18000)" by simp
  have letter: "time_LoadLocation sampleLib ''UTC+x'' = None
      \<and> (HasPrefix ''UTC+x'' ''UTC'' \<or> HasPrefix ''UTC+x'' ''GMT'')
      \<and> \<not> HasPrefix ''UTC+x'' ''UTCGMT''"
    by (simp add: sampleLib_def HasPrefix_def)
  have plus: "drop 3 ''UTC+x'' = CHR ''+'' # ''x'' \<and> \<not> isDigit CHR ''+''
      \<and> spaceWidth (CHR ''+'' # ''x'') = 0
      \<and> (CHR ''+'' = CHR ''+'' \<or> CHR ''+'' = CHR ''-'' \<longrightarrow> ''x'' = [] \<or> \<not> isDigit (hd ''x''))"
    by (simp add: isDigit_def spaceWidth_def)
  from letter C7_timezone_resolution [of sampleLib "''UTC+x''"]
  have "\<forall>c cs.
          drop 3 ''UTC+x'' = c # cs \<and> \<not> isDigit c \<and> spaceWidth (c # cs) = 0
          \<and> (c = CHR ''+'' \<or> c = CHR ''-'' \<longrightarrow> cs = [] \<or> \<not> isDigit (hd cs))
          \<longrightarrow> resolveLocation sampleLib ''UTC+x'' = FixedZone ''UTC+8'' 28800"
    by blast
  from this [rule_format, of "CHR ''+''" "''x''", OF plus]
  have e: "resolveLocation sampleLib ''UTC+x'' = FixedZone ''UTC+8'' 28800" .
  have phobos: "time_LoadLocation sampleLib ''Mars/Phobos'' = None
      \<and> \<not> HasPrefix ''Mars/Phobos'' ''UTC'' \<and> \<not> HasPrefix ''Mars/Phobos'' ''GMT''"
    by (simp add: sampleLib_def HasPrefix_def)
  from phobos C7_timezone_resolution [of sampleLib "''Mars/Phobos''"]
  have f: "resolveLocation sampleLib ''Mars/Phobos'' = FixedZone ''UTC+8'' 28800" by blast
  from a b c d e f show ?thesis by blast
qed

text \<open>
  The claim as it was stated fails on \<open>UTC+3:30\<close>: the remainder \<open>+3:30\<close> is not an integer,
  but \<open>Sscanf\<close> reads the 3 and leaves the rest, so the zone is the fixed zone of 3 hours
  and not the fixed zone \<open>UTC+8\<close>.
\<close>

theorem C7_counterexample:
  "time_LoadLocation sampleLib ''UTC+3:30'' = None
   \<and> TrimPrefix (TrimPrefix ''UTC+3:30'' ''UTC'') ''GMT'' = ''+3:30''
   \<and> resolveLocation sampleLib ''UTC+3:30'' = FixedZone ''UTC+3:30'' 10800
   \<and> resolveLocation sampleLib ''UTC+3:30'' \<noteq> FixedZone ''UTC+8'' 28800"
  by code_simp

text \<open>
  Two more strings outside the statement above: in \<open>UTCGMT\<close> both prefixes are trimmed
  and nothing is left, and an hour count near the end of the 64-bit range wraps around
  when it is multiplied.
\<close>

lemma resolveLocation_double_prefix: "resolveLocation sampleLib ''UTCGMT'' = UTC"
  by code_simp

lemma resolveLocation_wraps:
  "resolveLocation sampleLib ''UTC+9223372036854775807''
     = FixedZone ''UTC+9223372036854775807'' (- 3600)"
  by code_simp

end
